theory Spec2Isabelle
  imports Main "HOL-Library.AList"
begin

section \<open>Python values\<close>

text \<open>
  The documents that travel through the library are JSON values.  Floating point numbers
  are left out.  A \<open>PList\<close> or \<open>PDict\<close> is a sequence or mapping taken by value: the
  code below never mutates one in place.  A nested \<open>Resource\<close> or \<open>Reference\<close> instance is
  a \<open>dict\<close> subclass and stands here as a \<open>PDict\<close>.
\<close>

datatype pyval =
    PNone
  | PBool bool
  | PInt int
  | PStr string
  | PList "pyval list"
  | PDict "(string \<times> pyval) list"

text \<open>Truth value testing, as \<open>if x:\<close> does it.\<close>

fun truthy :: "pyval \<Rightarrow> bool" where
  "truthy PNone = False"
| "truthy (PBool b) = b"
| "truthy (PInt i) = (i \<noteq> 0)"
| "truthy (PStr s) = (s \<noteq> [])"
| "truthy (PList xs) = (xs \<noteq> [])"
| "truthy (PDict kvs) = (kvs \<noteq> [])"

text \<open>
  Dictionary keys: a value is hashed before it is used as a key, lists and dicts are
  unhashable, and \<open>True\<close> and \<open>1\<close> (\<open>False\<close> and \<open>0\<close>) are the same key.
\<close>

datatype pykey = KNone | KInt int | KStr string

fun hash_key :: "pyval \<Rightarrow> pykey option" where
  "hash_key PNone = Some KNone"
| "hash_key (PBool b) = Some (KInt (if b then 1 else 0))"
| "hash_key (PInt i) = Some (KInt i)"
| "hash_key (PStr s) = Some (KStr s)"
| "hash_key (PList xs) = None"
| "hash_key (PDict kvs) = None"

text \<open>
  Exceptions.  The classes of \<open>fhirpy/exceptions.py\<close> that \<open>lib.py\<close> raises, and the
  built-in ones.  \<open>KeyError\<close> carries its argument; the others carry the message of the
  source where the source writes one, and a description where the interpreter raises.
  \<open>OtherError\<close> is whatever an external collaborator raises (a connection failure, a
  JSON decoding error).
\<close>

datatype error =
    KeyError pyval
  | TypeError string
  | AttributeError string
  | ResourceNotFound string
  | OperationOutcome string
  | InvalidResponse string
  | OtherError string

text \<open>\<open>sep.join(xs)\<close> on strings.\<close>

fun join :: "string \<Rightarrow> string list \<Rightarrow> string" where
  "join sep [] = []"
| "join sep [x] = x"
| "join sep (x # y # ys) = x @ sep @ join sep (y # ys)"

text \<open>\<open>d.get(key, default)\<close> on a value: only a dict has the method.\<close>

fun py_get :: "pyval \<Rightarrow> string \<Rightarrow> pyval \<Rightarrow> error + pyval" where
  "py_get (PDict kvs) k d = Inr (case map_of kvs k of Some v \<Rightarrow> v | None \<Rightarrow> d)"
| "py_get v k d = Inl (AttributeError ''object has no attribute get'')"

text \<open>\<open>v[key]\<close> with a string key: a dict looks the key up, nothing else is indexed by a string.\<close>

fun py_getitem :: "pyval \<Rightarrow> string \<Rightarrow> error + pyval" where
  "py_getitem (PDict kvs) k =
     (case map_of kvs k of Some v \<Rightarrow> Inr v | None \<Rightarrow> Inl (KeyError (PStr k)))"
| "py_getitem v k = Inl (TypeError ''indices must be integers or object is not subscriptable'')"

text \<open>Iterating a value in a \<open>for\<close>: a list gives its elements, a dict its keys, a string its characters.\<close>

fun py_iter :: "pyval \<Rightarrow> error + pyval list" where
  "py_iter (PList xs) = Inr xs"
| "py_iter (PDict kvs) = Inr (map (\<lambda>kv. PStr (fst kv)) kvs)"
| "py_iter (PStr s) = Inr (map (\<lambda>ch. PStr [ch]) s)"
| "py_iter v = Inl (TypeError ''object is not iterable'')"

text \<open>
  Passing \<open>**kwargs\<close> to a function whose named parameters are \<open>reserved\<close>: a key that
  names a parameter already bound is a \<open>TypeError\<close>.
\<close>

definition unpack :: "string list \<Rightarrow> (string \<times> 'a) list \<Rightarrow> error + (string \<times> 'a) list" where
  "unpack reserved kwargs =
     (if \<exists>k \<in> set reserved. k \<in> fst ` set kwargs
      then Inl (TypeError ''got multiple values for argument'')
      else Inr kwargs)"

section \<open>The objects of \<open>lib.py\<close>\<close>

text \<open>
  A \<open>Resource\<close> is a dict (its \<open>items\<close>, in insertion order) with the attribute
  \<open>resource_type\<close> beside it.
\<close>

record Resource =
  resource_type :: pyval
  items :: "(string \<times> pyval) list"

text \<open>What \<open>requests.request(method, url, json=data, headers={'Authorization': ...})\<close> is given, and what it returns.\<close>

record request =
  req_method :: string
  req_url :: string
  req_json :: pyval
  req_authorization :: pyval

record response =
  status_code :: int
  content :: string

text \<open>
  The constant part of a \<open>Client\<close>.  A schema that is \<open>None\<close> and one that is the empty
  dict are both falsy, which is all the code asks of it: both are \<open>[]\<close> here.
\<close>

record Client =
  url :: string
  authorization :: pyval
  schema :: "(string \<times> string list) list"
  without_cache :: bool

text \<open>
  A slot of a parameter dict holds a list object (its address) or any other object.  An
  argument of a refinement is a list object or any other object in the same way.
\<close>

datatype slot = SRef nat | SVal pyval

text \<open>
  The mutable part.  The objects that \<open>SearchSet\<close> code mutates in place live in a store:
  the list objects and the parameter dicts, by address.  Addresses below \<open>next_list\<close>
  (\<open>next_dict\<close>) are allocated.  \<open>resources_cache\<close> is the client's
  \<open>defaultdict(dict)\<close>: a missing resource type reads as the empty dict.  \<open>sent\<close> is the
  sequence of requests handed to the network so far.
\<close>

record state =
  lists :: "nat \<Rightarrow> pyval list"
  next_list :: nat
  dicts :: "nat \<Rightarrow> (string \<times> slot) list"
  next_dict :: nat
  resources_cache :: "pykey \<Rightarrow> pykey \<rightharpoonup> Resource"
  sent :: "request list"

text \<open>
  What the code calls and this repository does not hold: the network, the JSON and bytes
  decoders, \<open>str()\<close> of a value that is not a string, the iteration order of a set, and
  of \<open>utils.py\<close> (not among the sources) \<open>encode_params\<close> and the two uses of
  \<open>convert_values\<close>: with the closure of \<open>Resource.__init__\<close>, which calls the abstract
  \<open>is_reference\<close> and \<open>Client.reference\<close>, and with the closure of \<open>serialize\<close>.  The
  network answers a request knowing the requests before it.
\<close>

record env =
  requests_request :: "request list \<Rightarrow> request \<Rightarrow> error + response"
  json_loads :: "string \<Rightarrow> error + pyval"
  bytes_decode :: "string \<Rightarrow> error + string"
  py_repr :: "pyval \<Rightarrow> string"
  set_iter :: "string set \<Rightarrow> string list"
  encode_params :: "(string \<times> pyval) list \<Rightarrow> string"
  convert_values_init :: "(string \<times> pyval) list \<Rightarrow> error + (string \<times> pyval) list"
  convert_values_serialize :: "(string \<times> pyval) list \<Rightarrow> error + pyval"

text \<open>\<open>'{0}'.format(v)\<close>: a string is itself.\<close>

definition py_str :: "env \<Rightarrow> pyval \<Rightarrow> string" where
  "py_str e v = (case v of PStr s \<Rightarrow> s | _ \<Rightarrow> py_repr e v)"

subsection \<open>AbstractResource: the schema gate\<close>

text \<open>\<open>schema.get(self.resource_type, [])\<close>: the key is hashed; the schema's keys are strings.\<close>

definition schema_get :: "(string \<times> string list) list \<Rightarrow> pyval \<Rightarrow> error + string list" where
  "schema_get sch rt =
     (case hash_key rt of
        None \<Rightarrow> Inl (TypeError ''unhashable type'')
      | Some (KStr s) \<Rightarrow> Inr (case map_of sch s of Some ks \<Rightarrow> ks | None \<Rightarrow> [])
      | Some _ \<Rightarrow> Inr [])"

definition get_root_keys :: "Client \<Rightarrow> Resource \<Rightarrow> error + string set" where
  "get_root_keys c r =
     (if schema c = [] then Inr {}
      else case schema_get (schema c) (resource_type r) of
             Inl err \<Rightarrow> Inl err
           | Inr ks \<Rightarrow> Inr (set ks \<union> {''resourceType'', ''id'', ''meta'', ''extension''}))"

text \<open>The gate returns \<open>None\<close> when it returns normally and the exception when it raises.\<close>

definition raise_error_if_invalid_keys :: "env \<Rightarrow> Client \<Rightarrow> Resource \<Rightarrow> string list \<Rightarrow> error option" where
  "raise_error_if_invalid_keys e c r keys =
     (if schema c = [] then None
      else case get_root_keys c r of
             Inl err \<Rightarrow> Some err
           | Inr root_attrs \<Rightarrow>
               (case filter (\<lambda>k. k \<notin> root_attrs) keys of
                  [] \<Rightarrow> None
                | k # _ \<Rightarrow>
                    Some (KeyError (PStr (''Invalid key '' @ [CHR 0x60] @ k @ [CHR 0x60]
                      @ ''. Possible keys are '' @ [CHR 0x60]
                      @ join '', '' (set_iter e root_attrs) @ [CHR 0x60])))))"

definition raise_error_if_invalid_key :: "env \<Rightarrow> Client \<Rightarrow> Resource \<Rightarrow> string \<Rightarrow> error option" where
  "raise_error_if_invalid_key e c r key = raise_error_if_invalid_keys e c r [key]"

definition AbstractResource_init ::
  "env \<Rightarrow> Client \<Rightarrow> Resource \<Rightarrow> (string \<times> pyval) list \<Rightarrow> error + Resource" where
  "AbstractResource_init e c r kwargs =
     (case raise_error_if_invalid_keys e c r (map fst kwargs) of
        Some err \<Rightarrow> Inl err
      | None \<Rightarrow> Inr (r\<lparr>items := kwargs\<rparr>))"

definition AbstractResource_setitem ::
  "env \<Rightarrow> Client \<Rightarrow> Resource \<Rightarrow> string \<Rightarrow> pyval \<Rightarrow> error + Resource" where
  "AbstractResource_setitem e c r key v =
     (case raise_error_if_invalid_key e c r key of
        Some err \<Rightarrow> Inl err
      | None \<Rightarrow> Inr (r\<lparr>items := AList.update key v (items r)\<rparr>))"

definition AbstractResource_get ::
  "env \<Rightarrow> Client \<Rightarrow> Resource \<Rightarrow> string \<Rightarrow> pyval \<Rightarrow> error + pyval" where
  "AbstractResource_get e c r key d =
     (case raise_error_if_invalid_key e c r key of
        Some err \<Rightarrow> Inl err
      | None \<Rightarrow> Inr (case map_of (items r) key of Some v \<Rightarrow> v | None \<Rightarrow> d))"

subsection \<open>Resource\<close>

text \<open>
  \<open>Resource.__init__\<close>.  The keyword arguments go through \<open>convert_values\<close> and are then
  unpacked into \<open>AbstractResource.__init__(self, client, **kwargs)\<close>.
\<close>

definition Resource_init ::
  "env \<Rightarrow> Client \<Rightarrow> pyval \<Rightarrow> (string \<times> pyval) list \<Rightarrow> error + Resource" where
  "Resource_init e c rt kwargs =
     (case convert_values_init e (AList.update ''resourceType'' rt kwargs) of
        Inl err \<Rightarrow> Inl err
      | Inr converted_kwargs \<Rightarrow>
          (case unpack [''self'', ''client''] converted_kwargs of
             Inl err \<Rightarrow> Inl err
           | Inr kw \<Rightarrow> AbstractResource_init e c \<lparr>resource_type = rt, items = []\<rparr> kw))"

definition Resource_setitem ::
  "env \<Rightarrow> Client \<Rightarrow> Resource \<Rightarrow> string \<Rightarrow> pyval \<Rightarrow> error + Resource" where
  "Resource_setitem e c r key v =
     (if key = ''resourceType'' \<and> ''resourceType'' \<notin> fst ` set (items r)
      then Inl (KeyError (PStr (''Can not change '' @ [CHR 0x60] @ ''resourceType'' @ [CHR 0x60]
             @ '' after instantiating resource. You must re-instantiate resource using ''
             @ [CHR 0x60] @ ''Client.resource'' @ [CHR 0x60] @ '' method'')))
      else AbstractResource_setitem e c r key v)"

text \<open>The property \<open>id\<close>.\<close>

definition Resource_id :: "env \<Rightarrow> Client \<Rightarrow> Resource \<Rightarrow> error + pyval" where
  "Resource_id e c r = AbstractResource_get e c r ''id'' PNone"

text \<open>The property \<open>reference\<close>: \<open>None\<close> when the function falls off its end.\<close>

definition Resource_reference :: "env \<Rightarrow> Client \<Rightarrow> Resource \<Rightarrow> error + string option" where
  "Resource_reference e c r =
     (case Resource_id e c r of
        Inl err \<Rightarrow> Inl err
      | Inr i \<Rightarrow>
          if truthy i then Inr (Some (py_str e (resource_type r) @ ''/'' @ py_str e i))
          else Inr None)"

text \<open>\<open>AbstractResource.__eq__\<close>, on two resources.\<close>

definition Resource_eq :: "env \<Rightarrow> Client \<Rightarrow> Resource \<Rightarrow> Resource \<Rightarrow> error + bool" where
  "Resource_eq e c r1 r2 =
     (case Resource_reference e c r1 of
        Inl err \<Rightarrow> Inl err
      | Inr a \<Rightarrow>
          (case Resource_reference e c r2 of
             Inl err \<Rightarrow> Inl err
           | Inr b \<Rightarrow> Inr (a = b)))"

text \<open>\<open>_get_path\<close> returns a formatted string or the attribute \<open>resource_type\<close> as it is.\<close>

definition get_path :: "env \<Rightarrow> Client \<Rightarrow> Resource \<Rightarrow> error + pyval" where
  "get_path e c r =
     (case Resource_id e c r of
        Inl err \<Rightarrow> Inl err
      | Inr i \<Rightarrow>
          if truthy i then Inr (PStr (py_str e (resource_type r) @ ''/'' @ py_str e i))
          else if resource_type r = PStr ''Bundle'' then Inr (PStr '''')
          else Inr (resource_type r))"

subsection \<open>Client\<close>

text \<open>\<open>Client.resource\<close>, with \<open>resource_class\<close> the class modelled above.\<close>

definition Client_resource ::
  "env \<Rightarrow> Client \<Rightarrow> pyval \<Rightarrow> (string \<times> pyval) list \<Rightarrow> error + Resource" where
  "Client_resource e c rt kwargs =
     (if rt = PNone then Inl (TypeError (''Argument '' @ [CHR 0x60] @ ''resource_type'' @ [CHR 0x60] @ '' is required''))
      else case unpack [''self'', ''client'', ''resource_type''] kwargs of
             Inl err \<Rightarrow> Inl err
           | Inr kw \<Rightarrow> Resource_init e c rt kw)"

definition add_resource_to_cache :: "env \<Rightarrow> Client \<Rightarrow> Resource \<Rightarrow> state \<Rightarrow> error + state" where
  "add_resource_to_cache e c r st =
     (if without_cache c then Inr st
      else case hash_key (resource_type r) of
             None \<Rightarrow> Inl (TypeError ''unhashable type'')
           | Some kt \<Rightarrow>
               (case Resource_id e c r of
                  Inl err \<Rightarrow> Inl err
                | Inr i \<Rightarrow>
                    (case hash_key i of
                       None \<Rightarrow> Inl (TypeError ''unhashable type'')
                     | Some ki \<Rightarrow>
                         Inr (st\<lparr>resources_cache :=
                                (resources_cache st)(kt := (resources_cache st kt)(ki \<mapsto> r))\<rparr>))))"

definition remove_resource_from_cache :: "env \<Rightarrow> Client \<Rightarrow> Resource \<Rightarrow> state \<Rightarrow> error + state" where
  "remove_resource_from_cache e c r st =
     (if without_cache c then Inr st
      else case hash_key (resource_type r) of
             None \<Rightarrow> Inl (TypeError ''unhashable type'')
           | Some kt \<Rightarrow>
               (case Resource_id e c r of
                  Inl err \<Rightarrow> Inl err
                | Inr i \<Rightarrow>
                    (case hash_key i of
                       None \<Rightarrow> Inl (TypeError ''unhashable type'')
                     | Some ki \<Rightarrow>
                         (case resources_cache st kt ki of
                            None \<Rightarrow> Inl (KeyError i)
                          | Some x \<Rightarrow>
                              Inr (st\<lparr>resources_cache :=
                                     (resources_cache st)(kt := (resources_cache st kt)(ki := None))\<rparr>)))))"

definition get_resource_from_cache :: "Client \<Rightarrow> state \<Rightarrow> pyval \<Rightarrow> pyval \<Rightarrow> error + Resource option" where
  "get_resource_from_cache c st rt i =
     (if without_cache c then Inr None
      else case hash_key rt of
             None \<Rightarrow> Inl (TypeError ''unhashable type'')
           | Some kt \<Rightarrow>
               (case hash_key i of
                  None \<Rightarrow> Inl (TypeError ''unhashable type'')
                | Some ki \<Rightarrow> Inr (resources_cache st kt ki)))"

text \<open>
  \<open>_do_request\<close>.  \<open>params or {}\<close> keeps a dict that is not empty and replaces \<open>None\<close> or
  an empty dict by a new one; \<open>update\<close> then writes into whichever it is, so a parameter
  dict of the store that is not empty gains the key \<open>_format\<close>.  The parameters are
  encoded as they stand then, each list read from the store.
\<close>

definition params_snapshot :: "state \<Rightarrow> (string \<times> slot) list \<Rightarrow> (string \<times> pyval) list" where
  "params_snapshot st ps =
     map (\<lambda>kv. (fst kv, case snd kv of SRef a \<Rightarrow> PList (lists st a) | SVal v \<Rightarrow> v)) ps"

definition do_request ::
  "env \<Rightarrow> Client \<Rightarrow> string \<Rightarrow> pyval \<Rightarrow> pyval \<Rightarrow> nat option \<Rightarrow> state \<Rightarrow> (error + pyval) \<times> state" where
  "do_request e c meth path data params st =
     (let kept = (case params of None \<Rightarrow> False | Some a \<Rightarrow> dicts st a \<noteq> []);
          ps = AList.update ''_format'' (SVal (PStr ''json''))
                 (case params of None \<Rightarrow> [] | Some a \<Rightarrow> dicts st a);
          st1 = (case params of
                   None \<Rightarrow> st
                 | Some a \<Rightarrow> if kept then st\<lparr>dicts := (dicts st)(a := ps)\<rparr> else st);
          req = \<lparr>req_method = meth,
                 req_url = url c @ ''/'' @ py_str e path @ ''?''
                           @ encode_params e (params_snapshot st1 ps),
                 req_json = data,
                 req_authorization = authorization c\<rparr>;
          st2 = st1\<lparr>sent := sent st1 @ [req]\<rparr>
      in case requests_request e (sent st1) req of
           Inl err \<Rightarrow> (Inl err, st2)
         | Inr r \<Rightarrow>
             if 200 \<le> status_code r \<and> status_code r < 300
             then (if content r = [] then Inr PNone else json_loads e (content r), st2)
             else if status_code r = 404
             then (case bytes_decode e (content r) of
                     Inl err \<Rightarrow> (Inl err, st2)
                   | Inr body \<Rightarrow> (Inl (ResourceNotFound body), st2))
             else (case bytes_decode e (content r) of
                     Inl err \<Rightarrow> (Inl err, st2)
                   | Inr body \<Rightarrow> (Inl (OperationOutcome body), st2)))"

definition fetch_resource ::
  "env \<Rightarrow> Client \<Rightarrow> pyval \<Rightarrow> nat option \<Rightarrow> state \<Rightarrow> (error + pyval) \<times> state" where
  "fetch_resource e c path params st = do_request e c ''get'' path PNone params st"

subsection \<open>Resource: persistence\<close>

definition Resource_serialize :: "env \<Rightarrow> Resource \<Rightarrow> error + pyval" where
  "Resource_serialize e r = convert_values_serialize e (items r)"

text \<open>
  \<open>save\<close> mutates the resource, so the resource comes back with the outcome, as it stands
  when the method returns or raises.
\<close>

definition Resource_save ::
  "env \<Rightarrow> Client \<Rightarrow> Resource \<Rightarrow> state \<Rightarrow> (error + unit) \<times> Resource \<times> state" where
  "Resource_save e c r st =
     (case Resource_id e c r of
        Inl err \<Rightarrow> (Inl err, r, st)
      | Inr i \<Rightarrow>
     (case get_path e c r of
        Inl err \<Rightarrow> (Inl err, r, st)
      | Inr path \<Rightarrow>
     (case Resource_serialize e r of
        Inl err \<Rightarrow> (Inl err, r, st)
      | Inr body \<Rightarrow>
     (case do_request e c (if truthy i then ''put'' else ''post'') path body None st of
        (Inl err, st1) \<Rightarrow> (Inl err, r, st1)
      | (Inr data, st1) \<Rightarrow>
     (case py_get data ''meta'' (PDict []) of
        Inl err \<Rightarrow> (Inl err, r, st1)
      | Inr m \<Rightarrow>
     (case Resource_setitem e c r ''meta'' m of
        Inl err \<Rightarrow> (Inl err, r, st1)
      | Inr r1 \<Rightarrow>
     (case py_get data ''id'' PNone of
        Inl err \<Rightarrow> (Inl err, r1, st1)
      | Inr i' \<Rightarrow>
     (case Resource_setitem e c r1 ''id'' i' of
        Inl err \<Rightarrow> (Inl err, r1, st1)
      | Inr r2 \<Rightarrow>
     (case add_resource_to_cache e c r2 st1 of
        Inl err \<Rightarrow> (Inl err, r2, st1)
      | Inr st2 \<Rightarrow> (Inr (), r2, st2))))))))))"

definition Resource_delete ::
  "env \<Rightarrow> Client \<Rightarrow> Resource \<Rightarrow> state \<Rightarrow> (error + pyval) \<times> state" where
  "Resource_delete e c r st =
     (case remove_resource_from_cache e c r st of
        Inl err \<Rightarrow> (Inl err, st)
      | Inr st1 \<Rightarrow>
          (case get_path e c r of
             Inl err \<Rightarrow> (Inl err, st1)
           | Inr path \<Rightarrow> do_request e c ''delete'' path PNone None st1))"

section \<open>SearchSet\<close>

text \<open>
  A \<open>SearchSet\<close> holds its resource type and a reference to its parameter dict, a
  \<open>defaultdict(list)\<close> in the store.  The client is the one client of the model.
\<close>

record SearchSet =
  ss_resource_type :: string
  ss_params :: nat

text \<open>Allocation of a list object and of a dict object.\<close>

definition new_list :: "pyval list \<Rightarrow> state \<Rightarrow> nat \<times> state" where
  "new_list xs st =
     (next_list st, st\<lparr>lists := (lists st)(next_list st := xs), next_list := Suc (next_list st)\<rparr>)"

definition new_dict :: "(string \<times> slot) list \<Rightarrow> state \<Rightarrow> nat \<times> state" where
  "new_dict ps st =
     (next_dict st, st\<lparr>dicts := (dicts st)(next_dict st := ps), next_dict := Suc (next_dict st)\<rparr>)"

text \<open>
  \<open>copy.deepcopy\<close> of the items of a parameter dict.  Every list object is copied once:
  the memo maps the address of a list already copied to the address of its copy, so two
  keys that share a list share the copy.  The copy of the dict itself never leaves
  \<open>clone\<close> and is kept as a value.
\<close>

fun deepcopy_items ::
  "(string \<times> slot) list \<Rightarrow> (nat \<times> nat) list \<Rightarrow> state \<Rightarrow> (string \<times> slot) list \<times> state" where
  "deepcopy_items [] memo st = ([], st)"
| "deepcopy_items ((k, SVal v) # rest) memo st =
     (case deepcopy_items rest memo st of (rest', st') \<Rightarrow> ((k, SVal v) # rest', st'))"
| "deepcopy_items ((k, SRef a) # rest) memo st =
     (case map_of memo a of
        Some a' \<Rightarrow>
          (case deepcopy_items rest memo st of (rest', st') \<Rightarrow> ((k, SRef a') # rest', st'))
      | None \<Rightarrow>
          (case new_list (lists st a) st of
             (a', st1) \<Rightarrow>
               (case deepcopy_items rest ((a, a') # memo) st1 of
                  (rest', st') \<Rightarrow> ((k, SRef a') # rest', st'))))"

text \<open>\<open>SearchSet.__init__\<close>: \<open>defaultdict(list, params or {})\<close> is a new dict with the same items.\<close>

definition SearchSet_init :: "string \<Rightarrow> (string \<times> slot) list \<Rightarrow> state \<Rightarrow> SearchSet \<times> state" where
  "SearchSet_init rt params st =
     (case new_dict params st of
        (a, st1) \<Rightarrow> (\<lparr>ss_resource_type = rt, ss_params = a\<rparr>, st1))"

text \<open>\<open>if not isinstance(value, list): value = [value]\<close>.\<close>

definition coerce :: "slot \<Rightarrow> state \<Rightarrow> nat \<times> state" where
  "coerce v st = (case v of SRef a \<Rightarrow> (a, st) | SVal x \<Rightarrow> new_list [x] st)"

text \<open>
  The loop of \<open>clone\<close> over \<open>kwargs.items()\<close>.  \<open>new_params[key]\<close> on a missing key makes
  the \<open>defaultdict\<close> store a new empty list under the key; \<open>extend\<close> is a method of lists
  only.
\<close>

fun clone_loop ::
  "bool \<Rightarrow> (string \<times> slot) list \<Rightarrow> (string \<times> slot) list \<Rightarrow> state
     \<Rightarrow> (error + (string \<times> slot) list) \<times> state" where
  "clone_loop override [] new_params st = (Inr new_params, st)"
| "clone_loop override ((key, v) # kwargs) new_params st =
     (case coerce v st of
        (value, st1) \<Rightarrow>
          if override
          then clone_loop override kwargs (AList.update key (SRef value) new_params) st1
          else (case map_of new_params key of
                  None \<Rightarrow>
                    (case new_list [] st1 of
                       (b, st2) \<Rightarrow>
                         clone_loop override kwargs (AList.update key (SRef b) new_params)
                           (st2\<lparr>lists := (lists st2)(b := lists st2 b @ lists st2 value)\<rparr>))
                | Some (SRef b) \<Rightarrow>
                    clone_loop override kwargs new_params
                      (st1\<lparr>lists := (lists st1)(b := lists st1 b @ lists st1 value)\<rparr>)
                | Some (SVal x) \<Rightarrow>
                    (Inl (AttributeError ''object has no attribute extend''), st1)))"

text \<open>
  \<open>clone(self, override=False, **kwargs)\<close>, called with \<open>override\<close> and the keywords
  \<open>kwargs\<close>.  The keywords that reach the body are those that name no parameter: a
  keyword \<open>self\<close>, or an \<open>override\<close> beside the one given, is a \<open>TypeError\<close> of the call,
  raised before the body runs.
\<close>

definition SearchSet_clone ::
  "SearchSet \<Rightarrow> bool \<Rightarrow> (string \<times> slot) list \<Rightarrow> state \<Rightarrow> (error + SearchSet) \<times> state" where
  "SearchSet_clone s override kwargs st =
     (case unpack [''self'', ''override''] kwargs of
        Inl err \<Rightarrow> (Inl err, st)
      | Inr kw \<Rightarrow>
     (case deepcopy_items (dicts st (ss_params s)) [] st of
        (new_params, st1) \<Rightarrow>
          (case clone_loop override kw new_params st1 of
             (Inl err, st2) \<Rightarrow> (Inl err, st2)
           | (Inr new_params', st2) \<Rightarrow>
               (case SearchSet_init (ss_resource_type s) new_params' st2 of
                  (s', st3) \<Rightarrow> (Inr s', st3)))))"

text \<open>
  \<open>search(self, **kwargs)\<close> is \<open>self.clone(**kwargs)\<close>: a keyword \<open>self\<close> is a \<open>TypeError\<close> of
  the call of \<open>search\<close>, and a keyword \<open>override\<close> binds the parameter \<open>override\<close> of
  \<open>clone\<close>, which \<open>clone\<close> tests for truth.
\<close>

definition slot_truthy :: "state \<Rightarrow> slot \<Rightarrow> bool" where
  "slot_truthy st v = (case v of SRef a \<Rightarrow> lists st a \<noteq> [] | SVal x \<Rightarrow> truthy x)"

definition SearchSet_search ::
  "SearchSet \<Rightarrow> (string \<times> slot) list \<Rightarrow> state \<Rightarrow> (error + SearchSet) \<times> state" where
  "SearchSet_search s kwargs st =
     (case unpack [''self''] kwargs of
        Inl err \<Rightarrow> (Inl err, st)
      | Inr kw \<Rightarrow>
          SearchSet_clone s
            (case map_of kw ''override'' of None \<Rightarrow> False | Some v \<Rightarrow> slot_truthy st v)
            (AList.delete ''override'' kw) st)"

definition SearchSet_limit :: "SearchSet \<Rightarrow> slot \<Rightarrow> state \<Rightarrow> (error + SearchSet) \<times> state" where
  "SearchSet_limit s limit st = SearchSet_clone s True [(''_count'', limit)] st"

definition SearchSet_page :: "SearchSet \<Rightarrow> slot \<Rightarrow> state \<Rightarrow> (error + SearchSet) \<times> state" where
  "SearchSet_page s page st = SearchSet_clone s True [(''page'', page)] st"

definition SearchSet_sort :: "SearchSet \<Rightarrow> string list \<Rightarrow> state \<Rightarrow> (error + SearchSet) \<times> state" where
  "SearchSet_sort s keys st =
     SearchSet_clone s True [(''_sort'', SVal (PStr (join '','' keys)))] st"

definition SearchSet_elements ::
  "env \<Rightarrow> SearchSet \<Rightarrow> string list \<Rightarrow> bool \<Rightarrow> state \<Rightarrow> (error + SearchSet) \<times> state" where
  "SearchSet_elements e s attrs exclude st =
     (let attrs1 = (if \<not> exclude then set attrs \<union> {''id'', ''resourceType''} else set attrs);
          attrs2 = set_iter e attrs1
      in SearchSet_clone s True
           [(''_elements'', SVal (PStr ((if exclude then ''-'' else []) @ join '','' attrs2)))] st)"

definition SearchSet_include ::
  "SearchSet \<Rightarrow> string \<Rightarrow> string \<Rightarrow> string option \<Rightarrow> bool \<Rightarrow> state
     \<Rightarrow> (error + SearchSet) \<times> state" where
  "SearchSet_include s rt attr target_resource_type recursive st =
     (let key_params = [''_include''] @ (if recursive then [''recursive''] else []);
          key = join '':'' key_params;
          value_params = [rt, attr] @
            (case target_resource_type of
               None \<Rightarrow> []
             | Some t \<Rightarrow> if t \<noteq> [] then [t] else []);
          v = join '':'' value_params
      in SearchSet_clone s False [(key, SVal (PStr v))] st)"

text \<open>
  Modelled from the spec: \<open>utils.chunks\<close> is not among the sources; \<open>has\<close> takes its
  positional arguments "type/attr alternating", in successive chunks of two.  In
  \<open>has(self, *args, **kwargs)\<close> a keyword \<open>self\<close> is a \<open>TypeError\<close> of the call.
\<close>

function chunks :: "'a list \<Rightarrow> nat \<Rightarrow> 'a list list" where
  "chunks l n = (if l = [] \<or> n = 0 then [] else take n l # chunks (drop n l) n)"
  by pat_completeness auto
termination
  by (relation "measure (\<lambda>p. length (fst p))") auto

declare chunks.simps [simp del]

definition SearchSet_has ::
  "SearchSet \<Rightarrow> string list \<Rightarrow> (string \<times> slot) list \<Rightarrow> state \<Rightarrow> (error + SearchSet) \<times> state" where
  "SearchSet_has s args kwargs st =
     (case unpack [''self''] kwargs of
        Inl err \<Rightarrow> (Inl err, st)
      | Inr kw \<Rightarrow>
      if length args mod 2 \<noteq> 0
      then (Inl (TypeError (''You should pass even size of arguments, for example: ''
              @ [CHR 0x60] @ ''.has('' @ [CHR 0x27] @ ''Observation'' @ [CHR 0x27] @ '', ''
              @ [CHR 0x27] @ ''patient'' @ [CHR 0x27] @ '', ''
              @ [CHR 0x27] @ ''AuditEvent'' @ [CHR 0x27] @ '', ''
              @ [CHR 0x27] @ ''entity'' @ [CHR 0x27] @ '', user=''
              @ [CHR 0x27] @ ''id'' @ [CHR 0x27] @ '')'' @ [CHR 0x60])), st)
      else
        (let key_part = join '':'' (map (\<lambda>pair. ''_has:'' @ join '':'' pair) (chunks args 2))
         in SearchSet_clone s False
              (map (\<lambda>kv. (join '':'' [key_part, fst kv], snd kv)) kw) st))"

subsection \<open>Fetching\<close>

definition perform_resource ::
  "env \<Rightarrow> Client \<Rightarrow> pyval \<Rightarrow> bool \<Rightarrow> state \<Rightarrow> (error + Resource) \<times> state" where
  "perform_resource e c data skip_caching st =
     (case py_get data ''resourceType'' PNone of
        Inl err \<Rightarrow> (Inl err, st)
      | Inr rt \<Rightarrow>
          (case unpack [''self'', ''resource_type''] (case data of PDict kvs \<Rightarrow> kvs | _ \<Rightarrow> []) of
             Inl err \<Rightarrow> (Inl err, st)
           | Inr kw \<Rightarrow>
               (case Client_resource e c rt kw of
                  Inl err \<Rightarrow> (Inl err, st)
                | Inr resource \<Rightarrow>
                    if \<not> skip_caching
                    then (case add_resource_to_cache e c resource st of
                            Inl err \<Rightarrow> (Inl err, st)
                          | Inr st1 \<Rightarrow> (Inr resource, st1))
                    else (Inr resource, st))))"

text \<open>The comprehension \<open>[res['resource'] for res in ...]\<close>.\<close>

fun entry_resources :: "pyval list \<Rightarrow> error + pyval list" where
  "entry_resources [] = Inr []"
| "entry_resources (res # rest) =
     (case py_getitem res ''resource'' of
        Inl err \<Rightarrow> Inl err
      | Inr d \<Rightarrow>
          (case entry_resources rest of
             Inl err \<Rightarrow> Inl err
           | Inr ds \<Rightarrow> Inr (d # ds)))"

text \<open>The loop of \<open>fetch\<close> over \<open>resources_data\<close>, with \<open>resources\<close> the list built so far.\<close>

fun fetch_loop ::
  "env \<Rightarrow> Client \<Rightarrow> SearchSet \<Rightarrow> bool \<Rightarrow> pyval list \<Rightarrow> Resource list \<Rightarrow> state
     \<Rightarrow> (error + Resource list) \<times> state" where
  "fetch_loop e c s skip_caching [] resources st = (Inr resources, st)"
| "fetch_loop e c s skip_caching (data # rest) resources st =
     (case perform_resource e c data skip_caching st of
        (Inl err, st1) \<Rightarrow> (Inl err, st1)
      | (Inr resource, st1) \<Rightarrow>
          fetch_loop e c s skip_caching rest
            (if resource_type resource = PStr (ss_resource_type s)
             then resources @ [resource] else resources) st1)"

definition SearchSet_fetch ::
  "env \<Rightarrow> Client \<Rightarrow> SearchSet \<Rightarrow> bool \<Rightarrow> state \<Rightarrow> (error + Resource list) \<times> state" where
  "SearchSet_fetch e c s skip_caching st =
     (case fetch_resource e c (PStr (ss_resource_type s)) (Some (ss_params s)) st of
        (Inl err, st1) \<Rightarrow> (Inl err, st1)
      | (Inr bundle_data, st1) \<Rightarrow>
     (case py_get bundle_data ''resourceType'' PNone of
        Inl err \<Rightarrow> (Inl err, st1)
      | Inr bundle_resource_type \<Rightarrow>
          if bundle_resource_type \<noteq> PStr ''Bundle''
          then (Inl (InvalidResponse (''Expected to receive Bundle but ''
                  @ py_str e bundle_resource_type @ '' received'')), st1)
          else
     (case py_get bundle_data ''entry'' (PList []) of
        Inl err \<Rightarrow> (Inl err, st1)
      | Inr entry \<Rightarrow>
     (case py_iter entry of
        Inl err \<Rightarrow> (Inl err, st1)
      | Inr ents \<Rightarrow>
     (case entry_resources ents of
        Inl err \<Rightarrow> (Inl err, st1)
      | Inr resources_data \<Rightarrow> fetch_loop e c s skip_caching resources_data [] st1)))))"

text \<open>
  \<open>fetch_all\<close>: the \<open>while True\<close> loop may run forever, so the loop is a partial function
  and \<open>None\<close> is "does not return".
\<close>

partial_function (option) fetch_all_loop ::
  "env \<Rightarrow> Client \<Rightarrow> SearchSet \<Rightarrow> bool \<Rightarrow> int \<Rightarrow> Resource list \<Rightarrow> state
     \<Rightarrow> ((error + Resource list) \<times> state) option" where
  "fetch_all_loop e c s skip_caching page resources st =
     (case SearchSet_page s (SVal (PInt page)) st of
        (Inl err, st1) \<Rightarrow> Some (Inl err, st1)
      | (Inr s1, st1) \<Rightarrow>
          (case SearchSet_fetch e c s1 skip_caching st1 of
             (Inl err, st2) \<Rightarrow> Some (Inl err, st2)
           | (Inr new_resources, st2) \<Rightarrow>
               if new_resources = [] then Some (Inr resources, st2)
               else fetch_all_loop e c s skip_caching (page + 1) (resources @ new_resources) st2))"

declare fetch_all_loop.simps [code]

definition SearchSet_fetch_all ::
  "env \<Rightarrow> Client \<Rightarrow> SearchSet \<Rightarrow> bool \<Rightarrow> state \<Rightarrow> ((error + Resource list) \<times> state) option" where
  "SearchSet_fetch_all e c s skip_caching st = fetch_all_loop e c s skip_caching 1 [] st"

section \<open>Notions used to state the properties\<close>

text \<open>
  The key under which the cache holds a resource: its hashed type and its hashed id, each
  \<open>None\<close> when it cannot be had.
\<close>

definition cache_key :: "env \<Rightarrow> Client \<Rightarrow> Resource \<Rightarrow> pykey option \<times> pykey option" where
  "cache_key e c m =
     (hash_key (resource_type m),
      case Resource_id e c m of Inl err \<Rightarrow> None | Inr i \<Rightarrow> hash_key i)"

text \<open>Writing a resource into a cache under its key, as \<open>_add_resource_to_cache\<close> does when it returns.\<close>

definition cache_put ::
  "env \<Rightarrow> Client \<Rightarrow> (pykey \<Rightarrow> pykey \<rightharpoonup> Resource) \<Rightarrow> Resource \<Rightarrow> (pykey \<Rightarrow> pykey \<rightharpoonup> Resource)" where
  "cache_put e c cache m =
     (case cache_key e c m of
        (Some kt, Some ki) \<Rightarrow> cache(kt := (cache kt)(ki \<mapsto> m))
      | _ \<Rightarrow> cache)"

text \<open>
  The refinement operations of a \<open>SearchSet\<close>, each with its arguments, and the call of
  one of them on a \<open>SearchSet\<close>.
\<close>

datatype refinement =
    Clone bool "(string \<times> slot) list"
  | Search "(string \<times> slot) list"
  | Limit slot
  | Page slot
  | Sort "string list"
  | Elements "string list" bool
  | Include string string "string option" bool
  | Has "string list" "(string \<times> slot) list"

fun refine :: "env \<Rightarrow> SearchSet \<Rightarrow> refinement \<Rightarrow> state \<Rightarrow> (error + SearchSet) \<times> state" where
  "refine e s (Clone override kwargs) st = SearchSet_clone s override kwargs st"
| "refine e s (Search kwargs) st = SearchSet_search s kwargs st"
| "refine e s (Limit limit) st = SearchSet_limit s limit st"
| "refine e s (Page page) st = SearchSet_page s page st"
| "refine e s (Sort keys) st = SearchSet_sort s keys st"
| "refine e s (Elements attrs exclude) st = SearchSet_elements e s attrs exclude st"
| "refine e s (Include rt attr target recursive) st = SearchSet_include s rt attr target recursive st"
| "refine e s (Has args kwargs) st = SearchSet_has s args kwargs st"

text \<open>
  The parameters of a \<open>SearchSet\<close> as a value: its dict read from the store, every list
  with its elements.  A \<open>SearchSet\<close> is well formed in a state when its dict and the lists
  of its dict are allocated there.
\<close>

definition SearchSet_params :: "state \<Rightarrow> SearchSet \<Rightarrow> (string \<times> pyval) list" where
  "SearchSet_params st s = params_snapshot st (dicts st (ss_params s))"

definition wf_SearchSet :: "state \<Rightarrow> SearchSet \<Rightarrow> bool" where
  "wf_SearchSet st s =
     (ss_params s < next_dict st
      \<and> list_all (\<lambda>kv. case snd kv of SRef a \<Rightarrow> a < next_list st | SVal v \<Rightarrow> True)
           (dicts st (ss_params s)))"


text \<open>The elements that an argument stands for once \<open>clone\<close> has made a list of it.\<close>

definition arg_values :: "state \<Rightarrow> slot \<Rightarrow> pyval list" where
  "arg_values st v = (case v of SRef a \<Rightarrow> lists st a | SVal x \<Rightarrow> [x])"







text \<open>
  \<open>self.page(page).fetch(skip_caching=skip_caching)\<close>, and the fetches of \<open>n\<close> successive
  pages from \<open>page\<close> on, each in the state the one before has left, when every one of
  them returns a list that is not empty.
\<close>

definition page_fetch ::
  "env \<Rightarrow> Client \<Rightarrow> SearchSet \<Rightarrow> bool \<Rightarrow> int \<Rightarrow> state \<Rightarrow> (error + Resource list) \<times> state" where
  "page_fetch e c s skip_caching page st =
     (case SearchSet_page s (SVal (PInt page)) st of
        (Inl err, st1) \<Rightarrow> (Inl err, st1)
      | (Inr s1, st1) \<Rightarrow> SearchSet_fetch e c s1 skip_caching st1)"

fun fetch_pages ::
  "env \<Rightarrow> Client \<Rightarrow> SearchSet \<Rightarrow> bool \<Rightarrow> int \<Rightarrow> nat \<Rightarrow> state
     \<Rightarrow> (Resource list list \<times> state) option" where
  "fetch_pages e c s skip_caching page 0 st = Some ([], st)"
| "fetch_pages e c s skip_caching page (Suc n) st =
     (case page_fetch e c s skip_caching page st of
        (Inl err, st1) \<Rightarrow> None
      | (Inr rs, st1) \<Rightarrow>
          if rs = [] then None
          else (case fetch_pages e c s skip_caching (page + 1) n st1 of
                  None \<Rightarrow> None
                | Some (rss, st2) \<Rightarrow> Some (rs # rss, st2)))"

section \<open>Concrete inputs\<close>

text \<open>
  A small server for the examples: a \<open>delete\<close> fails in the transport, the first \<open>get\<close>
  answers a Bundle of a Patient and an Observation and every later \<open>get\<close> an empty
  Bundle, and any other request answers the saved Patient.
\<close>

definition patient_doc :: pyval where
  "patient_doc = PDict [(''resourceType'', PStr ''Patient''), (''id'', PStr ''p1''),
                        (''meta'', PDict [(''versionId'', PStr ''1'')])]"

definition observation_doc :: pyval where
  "observation_doc = PDict [(''resourceType'', PStr ''Observation''), (''id'', PStr ''o1'')]"

definition test_env :: env where
  "test_env =
     \<lparr>requests_request = (\<lambda>hist req.
          if req_method req = ''delete'' then Inl (OtherError ''connection refused'')
          else if req_method req = ''get''
          then Inr \<lparr>status_code = 200, content = (if hist = [] then ''page1'' else ''empty'')\<rparr>
          else Inr \<lparr>status_code = 201, content = ''created''\<rparr>),
      json_loads = (\<lambda>s.
          if s = ''page1''
          then Inr (PDict [(''resourceType'', PStr ''Bundle''),
                           (''entry'', PList [PDict [(''resource'', patient_doc)],
                                              PDict [(''resource'', observation_doc)]])])
          else if s = ''empty'' then Inr (PDict [(''resourceType'', PStr ''Bundle'')])
          else if s = ''created'' then Inr patient_doc
          else Inl (OtherError ''JSONDecodeError'')),
      bytes_decode = Inr,
      py_repr = (\<lambda>v. ''None''),
      set_iter = (\<lambda>S. []),
      encode_params = (\<lambda>ps. join ''&'' (map fst ps)),
      convert_values_init = Inr,
      convert_values_serialize = (\<lambda>kvs. Inr (PDict kvs))\<rparr>"

definition test_client :: Client where
  "test_client =
     \<lparr>url = ''http://fhir'', authorization = PNone, schema = [], without_cache = False\<rparr>"

definition empty_state :: state where
  "empty_state =
     \<lparr>lists = (\<lambda>a. []), next_list = 0, dicts = (\<lambda>a. []), next_dict = 0,
      resources_cache = (\<lambda>kt. Map.empty), sent = []\<rparr>"

definition new_patient :: Resource where
  "new_patient =
     \<lparr>resource_type = PStr ''Patient'', items = [(''resourceType'', PStr ''Patient'')]\<rparr>"

definition new_observation :: Resource where
  "new_observation =
     \<lparr>resource_type = PStr ''Observation'', items = [(''resourceType'', PStr ''Observation'')]\<rparr>"

definition new_bundle :: Resource where
  "new_bundle =
     \<lparr>resource_type = PStr ''Bundle'', items = [(''resourceType'', PStr ''Bundle'')]\<rparr>"

definition nocache_client :: Client where
  "nocache_client = test_client\<lparr>without_cache := True\<rparr>"

definition saved_patient :: Resource where
  "saved_patient =
     \<lparr>resource_type = PStr ''Patient'',
      items = [(''resourceType'', PStr ''Patient''), (''id'', PStr ''p1'')]\<rparr>"

definition named_patient :: Resource where
  "named_patient =
     \<lparr>resource_type = PStr ''Patient'',
      items = [(''resourceType'', PStr ''Patient''), (''id'', PStr ''p1''),
               (''name'', PStr ''Ann'')]\<rparr>"

definition cached_state :: state where
  "cached_state =
     empty_state\<lparr>resources_cache :=
       (\<lambda>kt. Map.empty)(KStr ''Patient'' := [KStr ''p1'' \<mapsto> saved_patient])\<rparr>"

definition patient_env :: env where
  "patient_env =
     test_env\<lparr>requests_request :=
       (\<lambda>hist req. Inr \<lparr>status_code = 200, content = ''created''\<rparr>)\<rparr>"

definition patients :: SearchSet where
  "patients = fst (SearchSet_init ''Patient'' [] empty_state)"

definition patients_state :: state where
  "patients_state = snd (SearchSet_init ''Patient'' [] empty_state)"

definition fetched_patient :: Resource where
  "fetched_patient =
     \<lparr>resource_type = PStr ''Patient'',
      items = [(''resourceType'', PStr ''Patient''), (''id'', PStr ''p1''),
               (''meta'', PDict [(''versionId'', PStr ''1'')])]\<rparr>"

definition fetched_observation :: Resource where
  "fetched_observation =
     \<lparr>resource_type = PStr ''Observation'',
      items = [(''resourceType'', PStr ''Observation''), (''id'', PStr ''o1'')]\<rparr>"

definition named_search :: SearchSet where
  "named_search = \<lparr>ss_resource_type = ''Patient'', ss_params = 1\<rparr>"

definition named_state :: state where
  "named_state = snd (SearchSet_search patients [(''name'', SVal (PStr ''Ann''))] patients_state)"


section \<open>Properties\<close>

subsection \<open>Evaluation of the concrete inputs\<close>

lemmas model_defs =
  Resource_save_def Resource_delete_def Resource_id_def Resource_reference_def Resource_eq_def
  Resource_serialize_def Resource_setitem_def Resource_init_def Client_resource_def
  AbstractResource_get_def AbstractResource_setitem_def AbstractResource_init_def
  raise_error_if_invalid_key_def raise_error_if_invalid_keys_def get_root_keys_def schema_get_def
  get_path_def do_request_def fetch_resource_def params_snapshot_def py_str_def unpack_def
  add_resource_to_cache_def remove_resource_from_cache_def get_resource_from_cache_def

lemmas input_defs =
  test_env_def test_client_def nocache_client_def empty_state_def new_patient_def
  new_observation_def new_bundle_def patient_doc_def observation_doc_def

subsection \<open>Resource: item assignment\<close>

text \<open>
  C1.  The guard of \<open>Resource.__setitem__\<close> raises when the key \<open>resourceType\<close> is absent,
  not when it is present: on a resource built by \<open>Client.resource('Patient')\<close> the
  assignment \<open>r['resourceType'] = 'Observation'\<close> raises nothing and replaces the stored
  value.
\<close>

theorem setitem_resourceType_overwrites:
  "Client_resource test_env test_client (PStr ''Patient'') [] = Inr new_patient
   \<and> Resource_setitem test_env test_client new_patient ''resourceType'' (PStr ''Observation'')
       = Inr \<lparr>resource_type = PStr ''Patient'',
               items = [(''resourceType'', PStr ''Observation'')]\<rparr>"
  by (simp add: model_defs input_defs)

subsection \<open>Resource: save\<close>

lemma Resource_setitem_Inr:
  "Resource_setitem e c r k v = Inr r1 \<Longrightarrow> r1 = r\<lparr>items := AList.update k v (items r)\<rparr>"
  by (auto simp: Resource_setitem_def AbstractResource_setitem_def split: if_splits option.splits)

lemma Resource_id_Inr:
  "Resource_id e c r = Inr i \<Longrightarrow>
   i = (case map_of (items r) ''id'' of Some v \<Rightarrow> v | None \<Rightarrow> PNone)"
  by (auto simp: Resource_id_def AbstractResource_get_def split: option.splits)

lemma get_path_Inr:
  "Resource_id e c r = Inr i \<Longrightarrow>
   get_path e c r =
     Inr (if truthy i then PStr (py_str e (resource_type r) @ ''/'' @ py_str e i)
          else if resource_type r = PStr ''Bundle'' then PStr [] else resource_type r)"
  by (simp add: get_path_def)

lemma do_request_None_state:
  "do_request e c m p d None st = (out, st') \<Longrightarrow>
   st' = st\<lparr>sent := sent st @
           [\<lparr>req_method = m,
             req_url = url c @ ''/'' @ py_str e p @ ''?''
                       @ encode_params e [(''_format'', PStr ''json'')],
             req_json = d, req_authorization = authorization c\<rparr>]\<rparr>"
  by (auto simp: do_request_def Let_def params_snapshot_def split: sum.splits if_splits)

lemma do_request_None_Inr:
  "do_request e c m p d None st = (Inr data, st') \<Longrightarrow>
   \<exists>resp. requests_request e (sent st)
            \<lparr>req_method = m,
             req_url = url c @ ''/'' @ py_str e p @ ''?''
                       @ encode_params e [(''_format'', PStr ''json'')],
             req_json = d, req_authorization = authorization c\<rparr> = Inr resp
        \<and> 200 \<le> status_code resp \<and> status_code resp < 300
        \<and> (if content resp = [] then data = PNone else json_loads e (content resp) = Inr data)"
  by (auto simp: do_request_def Let_def params_snapshot_def split: sum.splits if_splits)

lemma add_resource_to_cache_Inr:
  "add_resource_to_cache e c r st = Inr st2 \<Longrightarrow>
   (if without_cache c then st2 = st
    else \<exists>kt i ki. hash_key (resource_type r) = Some kt \<and> Resource_id e c r = Inr i
           \<and> hash_key i = Some ki
           \<and> st2 = st\<lparr>resources_cache :=
                        (resources_cache st)(kt := (resources_cache st kt)(ki \<mapsto> r))\<rparr>)"
  by (auto simp: add_resource_to_cache_def split: if_splits option.splits sum.splits)

lemma py_get_Inr:
  "py_get data k d = Inr v \<Longrightarrow>
   \<exists>kvs. data = PDict kvs \<and> v = (case map_of kvs k of Some x \<Rightarrow> x | None \<Rightarrow> d)"
  by (cases data) auto

text \<open>
  C2, as the code has it.  An id counts as present when it is truthy.  A \<open>save\<close> that
  returns has sent exactly one request: \<open>put\<close> when the id is present and \<open>post\<close>
  otherwise; the path after the base URL is \<open>{resource_type}/{id}\<close> when the id is
  present, empty when it is absent and the resource type is \<open>Bundle\<close>, and the bare
  resource type otherwise; the answer is a JSON object, whose \<open>meta\<close> (or \<open>{}\<close>) and
  \<open>id\<close> (or \<open>None\<close>) are written into the resource; and the resource as it then stands is
  in the cache under its type and the new id when the client caches, while a client
  without cache keeps its cache as it was.
\<close>

theorem save_request_and_effects:
  assumes "Resource_save e c r st = (Inr (), r', st')"
  shows "\<exists>i req resp kvs.
      Resource_id e c r = Inr i
    \<and> Resource_serialize e r = Inr (req_json req)
    \<and> req_method req = (if truthy i then ''put'' else ''post'')
    \<and> req_url req = url c @ ''/''
         @ (if truthy i then py_str e (resource_type r) @ ''/'' @ py_str e i
            else if resource_type r = PStr ''Bundle'' then []
            else py_str e (resource_type r))
         @ ''?'' @ encode_params e [(''_format'', PStr ''json'')]
    \<and> sent st' = sent st @ [req]
    \<and> requests_request e (sent st) req = Inr resp
    \<and> json_loads e (content resp) = Inr (PDict kvs)
    \<and> r' = r\<lparr>items :=
              AList.update ''id'' (case map_of kvs ''id'' of Some v \<Rightarrow> v | None \<Rightarrow> PNone)
                (AList.update ''meta''
                   (case map_of kvs ''meta'' of Some v \<Rightarrow> v | None \<Rightarrow> PDict [])
                   (items r))\<rparr>
    \<and> (if without_cache c then resources_cache st' = resources_cache st
        else \<exists>kt ki. hash_key (resource_type r) = Some kt
               \<and> hash_key (case map_of kvs ''id'' of Some v \<Rightarrow> v | None \<Rightarrow> PNone) = Some ki
               \<and> resources_cache st' =
                   (resources_cache st)(kt := (resources_cache st kt)(ki \<mapsto> r')))"
proof -
  from assms obtain i path body data st1 m r1 i' r2 where
    i: "Resource_id e c r = Inr i" and
    path: "get_path e c r = Inr path" and
    body: "Resource_serialize e r = Inr body" and
    req: "do_request e c (if truthy i then ''put'' else ''post'') path body None st
            = (Inr data, st1)" and
    m: "py_get data ''meta'' (PDict []) = Inr m" and
    r1: "Resource_setitem e c r ''meta'' m = Inr r1" and
    i': "py_get data ''id'' PNone = Inr i'" and
    r2: "Resource_setitem e c r1 ''id'' i' = Inr r2" and
    add: "add_resource_to_cache e c r2 st1 = Inr st'" and
    r': "r' = r2"
    by (auto simp: Resource_save_def split: sum.splits prod.splits)
  from py_get_Inr[OF m] obtain kvs where
    data: "data = PDict kvs" and
    m_eq: "m = (case map_of kvs ''meta'' of Some x \<Rightarrow> x | None \<Rightarrow> PDict [])"
    by blast
  from i' data have i'_eq: "i' = (case map_of kvs ''id'' of Some x \<Rightarrow> x | None \<Rightarrow> PNone)"
    by simp
  let ?path = "if truthy i then PStr (py_str e (resource_type r) @ ''/'' @ py_str e i)
          else if resource_type r = PStr ''Bundle'' then PStr [] else resource_type r"
  let ?req = "\<lparr>req_method = (if truthy i then ''put'' else ''post''),
               req_url = url c @ ''/'' @ py_str e ?path @ ''?''
                         @ encode_params e [(''_format'', PStr ''json'')],
               req_json = body, req_authorization = authorization c\<rparr>"
  from path get_path_Inr[OF i] have path_eq: "path = ?path" by simp
  from do_request_None_state[OF req] path_eq
  have st1: "st1 = st\<lparr>sent := sent st @ [?req]\<rparr>" by simp
  from do_request_None_Inr[OF req] path_eq data obtain resp where
    resp: "requests_request e (sent st) ?req = Inr resp" and
    loads: "json_loads e (content resp) = Inr (PDict kvs)"
    by (auto split: if_splits)
  from Resource_setitem_Inr[OF r1] Resource_setitem_Inr[OF r2] r' m_eq i'_eq
  have r'_eq: "r' = r\<lparr>items :=
              AList.update ''id'' (case map_of kvs ''id'' of Some v \<Rightarrow> v | None \<Rightarrow> PNone)
                (AList.update ''meta''
                   (case map_of kvs ''meta'' of Some v \<Rightarrow> v | None \<Rightarrow> PDict [])
                   (items r))\<rparr>"
    by simp
  have url_eq: "req_url ?req = url c @ ''/''
         @ (if truthy i then py_str e (resource_type r) @ ''/'' @ py_str e i
            else if resource_type r = PStr ''Bundle'' then []
            else py_str e (resource_type r))
         @ ''?'' @ encode_params e [(''_format'', PStr ''json'')]"
    by (simp add: py_str_def)
  have cache: "if without_cache c then resources_cache st' = resources_cache st
        else \<exists>kt ki. hash_key (resource_type r) = Some kt
               \<and> hash_key (case map_of kvs ''id'' of Some v \<Rightarrow> v | None \<Rightarrow> PNone) = Some ki
               \<and> resources_cache st' =
                   (resources_cache st)(kt := (resources_cache st kt)(ki \<mapsto> r'))"
  proof (cases "without_cache c")
    case True
    with add_resource_to_cache_Inr[OF add] st1 show ?thesis by simp
  next
    case False
    with add_resource_to_cache_Inr[OF add] obtain kt i2 ki where
      kt: "hash_key (resource_type r2) = Some kt" and
      i2: "Resource_id e c r2 = Inr i2" and
      ki: "hash_key i2 = Some ki" and
      st': "st' = st1\<lparr>resources_cache :=
                        (resources_cache st1)(kt := (resources_cache st1 kt)(ki \<mapsto> r2))\<rparr>"
      by auto
    from Resource_id_Inr[OF i2] Resource_setitem_Inr[OF r2] i'_eq
    have "i2 = (case map_of kvs ''id'' of Some v \<Rightarrow> v | None \<Rightarrow> PNone)"
      by (simp add: update_conv')
    with False kt ki st' st1 r' Resource_setitem_Inr[OF r1] Resource_setitem_Inr[OF r2]
    show ?thesis by simp
  qed
  from add_resource_to_cache_Inr[OF add] st1
  have sent_eq: "sent st' = sent st @ [?req]"
    by (auto split: if_splits)
  from i body sent_eq resp loads r'_eq url_eq cache
  show ?thesis
    apply (intro exI[of _ i] exI[of _ ?req] exI[of _ resp] exI[of _ kvs])
    apply (intro conjI)
    apply simp_all
    done
qed

lemma save_new_patient:
  "Resource_save test_env test_client new_patient empty_state =
     (Inr (),
      new_patient\<lparr>items := [(''resourceType'', PStr ''Patient''),
                             (''meta'', PDict [(''versionId'', PStr ''1'')]),
                             (''id'', PStr ''p1'')]\<rparr>,
      snd (snd (Resource_save test_env test_client new_patient empty_state)))"
  by (simp add: model_defs input_defs)

theorem save_request_and_effects_witness:
  "fst (Resource_save test_env test_client new_patient empty_state) = Inr ()
   \<and> map req_method (sent (snd (snd (Resource_save test_env test_client new_patient empty_state))))
       = [''post'']
   \<and> map req_url (sent (snd (snd (Resource_save test_env test_client new_patient empty_state))))
       = [''http://fhir/Patient?_format'']
   \<and> resources_cache (snd (snd (Resource_save test_env test_client new_patient empty_state)))
        (KStr ''Patient'') (KStr ''p1'')
       = Some (fst (snd (Resource_save test_env test_client new_patient empty_state)))"
proof -
  from save_request_and_effects[OF save_new_patient]
  show ?thesis
    by (subst (1 2 3 4 5) save_new_patient) (auto simp: model_defs input_defs)
qed

text \<open>
  The claim as the specification states it fails on a Bundle without id saved through a
  client without cache: the request goes to the empty path, not to \<open>Bundle\<close>, and the
  saved resource is not in the cache.
\<close>

theorem save_bundle_counterexample:
  "fst (Resource_save test_env nocache_client new_bundle empty_state) = Inr ()
   \<and> map req_url (sent (snd (snd (Resource_save test_env nocache_client new_bundle empty_state))))
       = [''http://fhir/?_format'']
   \<and> map_of (items (fst (snd (Resource_save test_env nocache_client new_bundle empty_state)))) ''id''
       = Some (PStr ''p1'')
   \<and> resources_cache (snd (snd (Resource_save test_env nocache_client new_bundle empty_state)))
        (KStr ''Bundle'') (KStr ''p1'') = None"
  by (simp add: model_defs input_defs)

subsection \<open>Resource: equality\<close>

text \<open>
  C9, as the code has it.  \<open>__eq__\<close> compares the two \<open>reference\<close> properties, and the
  property is \<open>None\<close> for a resource whose id is not truthy.  So two resources are equal
  when both have an id and the strings \<open>{resource_type}/{id}\<close> agree, and also when
  neither has an id.
\<close>

theorem eq_compares_references:
  assumes "Resource_id e c r1 = Inr i1" and "Resource_id e c r2 = Inr i2"
  shows "Resource_reference e c r1 =
           Inr (if truthy i1 then Some (py_str e (resource_type r1) @ ''/'' @ py_str e i1)
                else None)
       \<and> Resource_reference e c r2 =
           Inr (if truthy i2 then Some (py_str e (resource_type r2) @ ''/'' @ py_str e i2)
                else None)
       \<and> Resource_eq e c r1 r2 =
           Inr ((truthy i1 \<and> truthy i2
                 \<and> py_str e (resource_type r1) @ ''/'' @ py_str e i1
                   = py_str e (resource_type r2) @ ''/'' @ py_str e i2)
                \<or> (\<not> truthy i1 \<and> \<not> truthy i2))"
  using assms by (auto simp: Resource_eq_def Resource_reference_def)

lemma saved_patient_id: "Resource_id test_env test_client saved_patient = Inr (PStr ''p1'')"
  by (simp add: model_defs input_defs saved_patient_def)

lemma named_patient_id: "Resource_id test_env test_client named_patient = Inr (PStr ''p1'')"
  by (simp add: model_defs input_defs named_patient_def)

theorem eq_compares_references_witness:
  "Resource_id test_env test_client saved_patient = Inr (PStr ''p1'')
   \<and> Resource_id test_env test_client named_patient = Inr (PStr ''p1'')
   \<and> Resource_reference test_env test_client saved_patient = Inr (Some ''Patient/p1'')
   \<and> Resource_reference test_env test_client named_patient = Inr (Some ''Patient/p1'')
   \<and> Resource_eq test_env test_client saved_patient named_patient = Inr True"
  using eq_compares_references[OF saved_patient_id named_patient_id]
    saved_patient_id named_patient_id
  by (simp add: py_str_def saved_patient_def named_patient_def)

text \<open>
  The claim as the specification states it fails on two unsaved resources: a Patient
  and an Observation without id are equal, and neither produces a reference string.
\<close>

theorem eq_without_id_counterexample:
  "Resource_eq test_env test_client new_patient new_observation = Inr True
   \<and> Resource_reference test_env test_client new_patient = Inr None
   \<and> Resource_reference test_env test_client new_observation = Inr None"
  by (simp add: model_defs input_defs)

subsection \<open>Resource: delete\<close>

lemma remove_resource_from_cache_Inr:
  "remove_resource_from_cache e c r st = Inr st1 \<Longrightarrow>
   (if without_cache c then st1 = st
    else \<exists>kt i ki. hash_key (resource_type r) = Some kt \<and> Resource_id e c r = Inr i
           \<and> hash_key i = Some ki
           \<and> st1 = st\<lparr>resources_cache :=
                        (resources_cache st)(kt := (resources_cache st kt)(ki := None))\<rparr>)"
  by (auto simp: remove_resource_from_cache_def split: if_splits option.splits sum.splits)

lemma remove_resource_from_cache_absent:
  assumes "Resource_id e c r = Inr i"
  shows "case remove_resource_from_cache e c r st of
           Inl err \<Rightarrow> get_resource_from_cache c st (resource_type r) i \<noteq> Inr (Some x)
         | Inr st1 \<Rightarrow> get_resource_from_cache c st1 (resource_type r) i \<noteq> Inr (Some x)"
  using assms
  by (auto simp: remove_resource_from_cache_def get_resource_from_cache_def
           split: if_splits option.splits sum.splits)

lemma do_request_None_cache:
  "do_request e c m p d None st = (out, st') \<Longrightarrow> resources_cache st' = resources_cache st"
  by (drule do_request_None_state) simp

lemma do_request_None_transport_failure:
  "requests_request e (sent st)
     \<lparr>req_method = m,
      req_url = url c @ ''/'' @ py_str e p @ ''?''
                @ encode_params e [(''_format'', PStr ''json'')],
      req_json = d, req_authorization = authorization c\<rparr> = Inl err \<Longrightarrow>
   fst (do_request e c m p d None st) = Inl err"
  by (simp add: do_request_def Let_def params_snapshot_def)

text \<open>
  C8.  Whatever \<open>delete\<close> does, a lookup of the resource's type and id in the cache
  finds nothing afterwards.  When the eviction does not raise, \<open>delete\<close> is the \<open>delete\<close>
  request made in the state with the entry already gone: its outcome, a failure
  included, is the outcome of \<open>delete\<close>, one request is added to those sent, and the
  cache stays as the eviction left it.
\<close>

theorem delete_evicts_before_request:
  assumes id: "Resource_id e c r = Inr i"
      and del: "Resource_delete e c r st = (out, st')"
  shows "(\<forall>x. get_resource_from_cache c st' (resource_type r) i \<noteq> Inr (Some x))
       \<and> (\<forall>st1 path req.
            remove_resource_from_cache e c r st = Inr st1 \<and> get_path e c r = Inr path
            \<and> req = \<lparr>req_method = ''delete'',
                      req_url = url c @ ''/'' @ py_str e path @ ''?''
                                @ encode_params e [(''_format'', PStr ''json'')],
                      req_json = PNone, req_authorization = authorization c\<rparr>
            \<longrightarrow> (out, st') = do_request e c ''delete'' path PNone None st1
              \<and> sent st' = sent st @ [req]
              \<and> resources_cache st' = resources_cache st1
              \<and> (\<forall>err. requests_request e (sent st) req = Inl err \<longrightarrow> out = Inl err))"
proof (intro conjI allI impI)
  fix x
  show "get_resource_from_cache c st' (resource_type r) i \<noteq> Inr (Some x)"
  proof (cases "remove_resource_from_cache e c r st")
    case (Inl err)
    with del have "st' = st" by (simp add: Resource_delete_def)
    with remove_resource_from_cache_absent[OF id, of st x] Inl show ?thesis by simp
  next
    case (Inr st1)
    with remove_resource_from_cache_absent[OF id, of st x]
    have absent: "get_resource_from_cache c st1 (resource_type r) i \<noteq> Inr (Some x)" by simp
    from id obtain path where path: "get_path e c r = Inr path"
      by (simp add: get_path_Inr)
    with del Inr have "do_request e c ''delete'' path PNone None st1 = (out, st')"
      by (simp add: Resource_delete_def)
    from do_request_None_cache[OF this] absent show ?thesis
      by (auto simp: get_resource_from_cache_def split: if_splits option.splits)
  qed
next
  fix st1 path req
  assume h: "remove_resource_from_cache e c r st = Inr st1 \<and> get_path e c r = Inr path
            \<and> req = \<lparr>req_method = ''delete'',
                      req_url = url c @ ''/'' @ py_str e path @ ''?''
                                @ encode_params e [(''_format'', PStr ''json'')],
                      req_json = PNone, req_authorization = authorization c\<rparr>"
  with del have run: "do_request e c ''delete'' path PNone None st1 = (out, st')"
    by (simp add: Resource_delete_def)
  from h remove_resource_from_cache_Inr[of e c r st st1]
  have sent1: "sent st1 = sent st" by (auto split: if_splits)
  show "(out, st') = do_request e c ''delete'' path PNone None st1" using run by simp
  show "sent st' = sent st @ [req]"
    using do_request_None_state[OF run] h sent1 by simp
  show "resources_cache st' = resources_cache st1"
    using do_request_None_cache[OF run] .
  fix err
  assume "requests_request e (sent st) req = Inl err"
  with h sent1 do_request_None_transport_failure[of e st1 "''delete''" c path PNone err] run
  show "out = Inl err" by simp
qed

lemma delete_saved_patient:
  "Resource_delete test_env test_client saved_patient cached_state =
     (Inl (OtherError ''connection refused''),
      snd (Resource_delete test_env test_client saved_patient cached_state))"
  by (simp add: model_defs input_defs saved_patient_def cached_state_def)

theorem delete_evicts_before_request_witness:
  "Resource_id test_env test_client saved_patient = Inr (PStr ''p1'')
   \<and> resources_cache cached_state (KStr ''Patient'') (KStr ''p1'') = Some saved_patient
   \<and> fst (Resource_delete test_env test_client saved_patient cached_state)
       = Inl (OtherError ''connection refused'')
   \<and> get_resource_from_cache test_client
        (snd (Resource_delete test_env test_client saved_patient cached_state))
        (PStr ''Patient'') (PStr ''p1'') = Inr None
   \<and> map req_url (sent (snd (Resource_delete test_env test_client saved_patient cached_state)))
       = [''http://fhir/Patient/p1?_format'']"
  using delete_evicts_before_request[OF saved_patient_id delete_saved_patient]
  by (simp add: model_defs input_defs saved_patient_def cached_state_def)

subsection \<open>SearchSet: fetch\<close>

lemma do_request_cache:
  "do_request e c m p d params st = (out, st') \<Longrightarrow> resources_cache st' = resources_cache st"
  by (auto simp: do_request_def Let_def split: sum.splits if_splits option.splits)

lemma fetch_resource_cache:
  "fetch_resource e c p params st = (out, st') \<Longrightarrow> resources_cache st' = resources_cache st"
  unfolding fetch_resource_def by (rule do_request_cache)

text \<open>
  C5.  When the document that comes back is not a Bundle (its \<open>resourceType\<close> is another
  value, or is missing and reads as \<open>None\<close>), \<open>fetch\<close> raises \<open>InvalidResponse\<close> straight
  after the request, and the cache is the one from before the call.
\<close>

theorem fetch_non_bundle_invalid_response:
  assumes "fetch_resource e c (PStr (ss_resource_type s)) (Some (ss_params s)) st
             = (Inr (PDict kvs), st1)"
      and "map_of kvs ''resourceType'' \<noteq> Some (PStr ''Bundle'')"
  shows "SearchSet_fetch e c s skip_caching st =
           (Inl (InvalidResponse (''Expected to receive Bundle but ''
                   @ py_str e (case map_of kvs ''resourceType'' of Some v \<Rightarrow> v | None \<Rightarrow> PNone)
                   @ '' received'')), st1)
       \<and> resources_cache st1 = resources_cache st"
  using assms fetch_resource_cache[OF assms(1)]
  by (auto simp: SearchSet_fetch_def split: option.splits)

lemmas search_defs =
  SearchSet_fetch_def SearchSet_init_def SearchSet_clone_def SearchSet_page_def
  perform_resource_def new_dict_def new_list_def coerce_def
  patients_def patients_state_def patient_env_def fetched_patient_def fetched_observation_def

lemma pair_fst: "fst p = a \<Longrightarrow> p = (a, snd p)"
  by (cases p) simp

lemma fetch_resource_patient_env:
  "fst (fetch_resource patient_env test_client (PStr (ss_resource_type patients))
          (Some (ss_params patients)) patients_state)
   = Inr (PDict [(''resourceType'', PStr ''Patient''), (''id'', PStr ''p1''),
                 (''meta'', PDict [(''versionId'', PStr ''1'')])])"
  by (simp add: model_defs input_defs search_defs)

theorem fetch_non_bundle_invalid_response_witness:
  "fst (fetch_resource patient_env test_client (PStr (ss_resource_type patients))
          (Some (ss_params patients)) patients_state) = Inr patient_doc
   \<and> fst (SearchSet_fetch patient_env test_client patients False patients_state)
       = Inl (InvalidResponse ''Expected to receive Bundle but Patient received'')
   \<and> resources_cache (snd (SearchSet_fetch patient_env test_client patients False patients_state))
       = resources_cache patients_state"
  using fetch_non_bundle_invalid_response[OF pair_fst[OF fetch_resource_patient_env], of False]
    fetch_resource_patient_env
  by (simp add: py_str_def patient_doc_def)

lemma fetch_loop_types:
  "fetch_loop e c s skip_caching ds acc st = (Inr rs, st') \<Longrightarrow>
   \<forall>r \<in> set acc. resource_type r = PStr (ss_resource_type s) \<Longrightarrow>
   \<forall>r \<in> set rs. resource_type r = PStr (ss_resource_type s)"
proof (induction ds arbitrary: acc st)
  case Nil
  then show ?case by simp
next
  case (Cons d ds)
  from Cons.prems(1) obtain m st1 where
    m: "perform_resource e c d skip_caching st = (Inr m, st1)" and
    rest: "fetch_loop e c s skip_caching ds
             (if resource_type m = PStr (ss_resource_type s) then acc @ [m] else acc) st1
           = (Inr rs, st')"
    by (auto split: prod.splits sum.splits)
  from Cons.prems(2)
  have "\<forall>r \<in> set (if resource_type m = PStr (ss_resource_type s) then acc @ [m] else acc).
          resource_type r = PStr (ss_resource_type s)"
    by simp
  from Cons.IH[OF rest this] show ?case .
qed

lemma SearchSet_fetch_Inr:
  assumes "SearchSet_fetch e c s skip_caching st = (Inr rs, st')"
  shows "\<exists>kvs st1 entry ents datas.
           fetch_resource e c (PStr (ss_resource_type s)) (Some (ss_params s)) st
             = (Inr (PDict kvs), st1)
         \<and> map_of kvs ''resourceType'' = Some (PStr ''Bundle'')
         \<and> entry = (case map_of kvs ''entry'' of Some v \<Rightarrow> v | None \<Rightarrow> PList [])
         \<and> py_iter entry = Inr ents
         \<and> entry_resources ents = Inr datas
         \<and> fetch_loop e c s skip_caching datas [] st1 = (Inr rs, st')"
proof -
  from assms obtain bdata st1 where
    b: "fetch_resource e c (PStr (ss_resource_type s)) (Some (ss_params s)) st
          = (Inr bdata, st1)"
    by (auto simp: SearchSet_fetch_def split: prod.splits sum.splits)
  with assms obtain brt where brt: "py_get bdata ''resourceType'' PNone = Inr brt"
    by (auto simp: SearchSet_fetch_def split: sum.splits)
  from py_get_Inr[OF brt] obtain kvs where kvs: "bdata = PDict kvs" by blast
  from assms b kvs show ?thesis
    by (auto simp: SearchSet_fetch_def split: sum.splits if_splits option.splits)
qed

text \<open>
  C6.  Every resource in the list that \<open>fetch\<close> returns has the attribute
  \<open>resource_type\<close> equal to the resource type of the SearchSet.
\<close>

theorem fetch_returns_declared_type_only:
  assumes "SearchSet_fetch e c s skip_caching st = (Inr resources, st')"
  shows "\<forall>r \<in> set resources. resource_type r = PStr (ss_resource_type s)"
proof -
  from SearchSet_fetch_Inr[OF assms] obtain datas st1 where
    "fetch_loop e c s skip_caching datas [] st1 = (Inr resources, st')"
    by blast
  from fetch_loop_types[OF this] show ?thesis by simp
qed

lemma fetch_patients:
  "fst (SearchSet_fetch test_env test_client patients False patients_state)
     = Inr [fetched_patient]"
  by (simp add: model_defs input_defs search_defs)

theorem fetch_returns_declared_type_only_witness:
  "fst (SearchSet_fetch test_env test_client patients False patients_state)
     = Inr [fetched_patient]
   \<and> resource_type fetched_patient = PStr (ss_resource_type patients)
   \<and> entry_resources [PDict [(''resource'', patient_doc)],
                       PDict [(''resource'', observation_doc)]]
       = Inr [patient_doc, observation_doc]"
  using fetch_returns_declared_type_only[OF pair_fst[OF fetch_patients]] fetch_patients
  by (simp add: input_defs)

subsection \<open>SearchSet: what fetch caches\<close>

lemma perform_resource_cached:
  assumes "perform_resource e c d False st = (Inr m, st1)" and "\<not> without_cache c"
  shows "fst (perform_resource e c d True st0) = Inr m
       \<and> (\<exists>kt ki. cache_key e c m = (Some kt, Some ki))
       \<and> st1 = st\<lparr>resources_cache := cache_put e c (resources_cache st) m\<rparr>"
proof -
  from assms(1) obtain rt kw where
    rt: "py_get d ''resourceType'' PNone = Inr rt" and
    kw: "unpack [''self'', ''resource_type''] (case d of PDict kvs \<Rightarrow> kvs | _ \<Rightarrow> []) = Inr kw" and
    m: "Client_resource e c rt kw = Inr m" and
    add: "add_resource_to_cache e c m st = Inr st1"
    by (auto simp: perform_resource_def split: sum.splits)
  from add_resource_to_cache_Inr[OF add] assms(2) obtain kt i ki where
    k: "hash_key (resource_type m) = Some kt" "Resource_id e c m = Inr i" "hash_key i = Some ki" and
    st1: "st1 = st\<lparr>resources_cache :=
                    (resources_cache st)(kt := (resources_cache st kt)(ki \<mapsto> m))\<rparr>"
    by auto
  from k have key: "cache_key e c m = (Some kt, Some ki)" by (simp add: cache_key_def)
  from rt kw m have "fst (perform_resource e c d True st0) = Inr m"
    by (simp add: perform_resource_def)
  with key st1 show ?thesis by (simp add: cache_put_def)
qed

lemma fetch_loop_cache:
  "fetch_loop e c s False ds acc st = (Inr rs, st') \<Longrightarrow> \<not> without_cache c \<Longrightarrow>
   \<exists>ms. list_all2 (\<lambda>d m. fst (perform_resource e c d True st0) = Inr m) ds ms
      \<and> rs = acc @ filter (\<lambda>m. resource_type m = PStr (ss_resource_type s)) ms
      \<and> (\<forall>m \<in> set ms. \<exists>kt ki. cache_key e c m = (Some kt, Some ki))
      \<and> resources_cache st' = foldl (cache_put e c) (resources_cache st) ms"
proof (induction ds arbitrary: acc st)
  case Nil
  then show ?case by simp
next
  case (Cons d ds)
  from Cons.prems(1) obtain m st1 where
    m: "perform_resource e c d False st = (Inr m, st1)" and
    rest: "fetch_loop e c s False ds
             (if resource_type m = PStr (ss_resource_type s) then acc @ [m] else acc) st1
           = (Inr rs, st')"
    by (auto split: prod.splits sum.splits)
  from perform_resource_cached[OF m Cons.prems(2), of st0] have
    pure: "fst (perform_resource e c d True st0) = Inr m" and
    key: "\<exists>kt ki. cache_key e c m = (Some kt, Some ki)" and
    st1: "resources_cache st1 = cache_put e c (resources_cache st) m"
    by simp_all
  from Cons.IH[OF rest Cons.prems(2)] obtain ms where
    ms: "list_all2 (\<lambda>d m. fst (perform_resource e c d True st0) = Inr m) ds ms" and
    rs: "rs = (if resource_type m = PStr (ss_resource_type s) then acc @ [m] else acc)
              @ filter (\<lambda>m. resource_type m = PStr (ss_resource_type s)) ms" and
    keys: "\<forall>m \<in> set ms. \<exists>kt ki. cache_key e c m = (Some kt, Some ki)" and
    cache: "resources_cache st' = foldl (cache_put e c) (resources_cache st1) ms"
    by blast
  show ?case
  proof (intro exI[of _ "m # ms"] conjI)
    show "list_all2 (\<lambda>d m. fst (perform_resource e c d True st0) = Inr m) (d # ds) (m # ms)"
      using pure ms by simp
    show "rs = acc @ filter (\<lambda>m. resource_type m = PStr (ss_resource_type s)) (m # ms)"
      using rs by simp
    show "\<forall>m \<in> set (m # ms). \<exists>kt ki. cache_key e c m = (Some kt, Some ki)"
      using key keys by simp
    show "resources_cache st' = foldl (cache_put e c) (resources_cache st) (m # ms)"
      using cache st1 by simp
  qed
qed

lemma cache_put_apply:
  "cache_key e c x = (Some kt', Some ki') \<Longrightarrow>
   cache_put e c cache x kt ki = (if kt = kt' \<and> ki = ki' then Some x else cache kt ki)"
  by (simp add: cache_put_def)

lemma cache_put_other:
  "cache_key e c x \<noteq> (Some kt, Some ki) \<Longrightarrow> cache_put e c cache x kt ki = cache kt ki"
  by (auto simp: cache_put_def split: option.splits prod.splits)

lemma foldl_cache_put_hit:
  "\<forall>m \<in> set ms. \<exists>kt ki. cache_key e c m = (Some kt, Some ki) \<Longrightarrow>
   m \<in> set ms \<Longrightarrow> cache_key e c m = (Some kt, Some ki) \<Longrightarrow>
   foldl (cache_put e c) cache ms kt ki
     = Some (last (filter (\<lambda>m'. cache_key e c m' = cache_key e c m) ms))"
proof (induction ms rule: rev_induct)
  case Nil
  then show ?case by simp
next
  case (snoc x xs)
  from snoc.prems(1) obtain kt' ki' where x: "cache_key e c x = (Some kt', Some ki')"
    by auto
  show ?case
  proof (cases "cache_key e c x = cache_key e c m")
    case True
    with snoc.prems(3) x show ?thesis by (simp add: cache_put_apply)
  next
    case False
    with snoc.prems(2) have "m \<in> set xs" by auto
    with snoc.IH snoc.prems(1,3)
    have "foldl (cache_put e c) cache xs kt ki
            = Some (last (filter (\<lambda>m'. cache_key e c m' = cache_key e c m) xs))"
      by simp
    with False snoc.prems(3) show ?thesis
      by (simp add: cache_put_other)
  qed
qed

lemma foldl_cache_put_miss:
  "(Some kt, Some ki) \<notin> cache_key e c ` set ms \<Longrightarrow>
   foldl (cache_put e c) cache ms kt ki = cache kt ki"
  by (induction ms rule: rev_induct) (auto simp: cache_put_other)

text \<open>
  C10.  With caching on and not skipped, a \<open>fetch\<close> that returns has made a resource of
  every entry of the Bundle (the list \<open>ms\<close>, in the order of the entries), returns those
  of the declared type, and has written every one of them into the cache, the other
  types included: under the key of each stands the last resource made with that key.
  Keys of none of them are as before.
\<close>

theorem fetch_caches_every_entry:
  assumes "SearchSet_fetch e c s False st = (Inr resources, st')" and "\<not> without_cache c"
  shows "\<exists>kvs st1 ents datas ms.
      fetch_resource e c (PStr (ss_resource_type s)) (Some (ss_params s)) st
        = (Inr (PDict kvs), st1)
    \<and> py_iter (case map_of kvs ''entry'' of Some v \<Rightarrow> v | None \<Rightarrow> PList []) = Inr ents
    \<and> entry_resources ents = Inr datas
    \<and> list_all2 (\<lambda>d m. fst (perform_resource e c d True st) = Inr m) datas ms
    \<and> resources = filter (\<lambda>m. resource_type m = PStr (ss_resource_type s)) ms
    \<and> (\<forall>m \<in> set ms. \<exists>kt ki.
          cache_key e c m = (Some kt, Some ki)
        \<and> resources_cache st' kt ki
            = Some (last (filter (\<lambda>m'. cache_key e c m' = cache_key e c m) ms)))
    \<and> (\<forall>kt ki. (Some kt, Some ki) \<notin> cache_key e c ` set ms
          \<longrightarrow> resources_cache st' kt ki = resources_cache st kt ki)"
proof -
  from SearchSet_fetch_Inr[OF assms(1)] obtain kvs st1 ents datas where
    f: "fetch_resource e c (PStr (ss_resource_type s)) (Some (ss_params s)) st
          = (Inr (PDict kvs), st1)" and
    ents: "py_iter (case map_of kvs ''entry'' of Some v \<Rightarrow> v | None \<Rightarrow> PList []) = Inr ents" and
    datas: "entry_resources ents = Inr datas" and
    loop: "fetch_loop e c s False datas [] st1 = (Inr resources, st')"
    by blast
  from fetch_loop_cache[OF loop assms(2), of st] obtain ms where
    ms: "list_all2 (\<lambda>d m. fst (perform_resource e c d True st) = Inr m) datas ms" and
    rs: "resources = filter (\<lambda>m. resource_type m = PStr (ss_resource_type s)) ms" and
    keys: "\<forall>m \<in> set ms. \<exists>kt ki. cache_key e c m = (Some kt, Some ki)" and
    cache: "resources_cache st' = foldl (cache_put e c) (resources_cache st1) ms"
    by auto
  from fetch_resource_cache[OF f] cache
  have cache': "resources_cache st' = foldl (cache_put e c) (resources_cache st) ms"
    by simp
  have hit: "\<forall>m \<in> set ms. \<exists>kt ki.
          cache_key e c m = (Some kt, Some ki)
        \<and> resources_cache st' kt ki
            = Some (last (filter (\<lambda>m'. cache_key e c m' = cache_key e c m) ms))"
  proof
    fix m assume m: "m \<in> set ms"
    with keys obtain kt ki where k: "cache_key e c m = (Some kt, Some ki)" by blast
    from foldl_cache_put_hit[OF keys m k] cache' k
    show "\<exists>kt ki. cache_key e c m = (Some kt, Some ki)
        \<and> resources_cache st' kt ki
            = Some (last (filter (\<lambda>m'. cache_key e c m' = cache_key e c m) ms))"
      by simp
  qed
  have miss: "\<forall>kt ki. (Some kt, Some ki) \<notin> cache_key e c ` set ms
          \<longrightarrow> resources_cache st' kt ki = resources_cache st kt ki"
    using foldl_cache_put_miss cache' by simp
  from f ents datas ms rs hit miss show ?thesis by blast
qed

lemma fetch_patients_cache:
  "resources_cache (snd (SearchSet_fetch test_env test_client patients False patients_state))
     (KStr ''Observation'') (KStr ''o1'') = Some fetched_observation
   \<and> resources_cache (snd (SearchSet_fetch test_env test_client patients False patients_state))
     (KStr ''Patient'') (KStr ''p1'') = Some fetched_patient"
  by (simp add: model_defs input_defs search_defs)

theorem fetch_caches_every_entry_witness:
  "fst (SearchSet_fetch test_env test_client patients False patients_state)
     = Inr [fetched_patient]
   \<and> \<not> without_cache test_client
   \<and> resource_type fetched_observation \<noteq> PStr (ss_resource_type patients)
   \<and> resources_cache (snd (SearchSet_fetch test_env test_client patients False patients_state))
       (KStr ''Observation'') (KStr ''o1'') = Some fetched_observation
   \<and> resources_cache (snd (SearchSet_fetch test_env test_client patients False patients_state))
       (KStr ''Patient'') (KStr ''p1'') = Some fetched_patient"
proof -
  have nc: "\<not> without_cache test_client" by (simp add: test_client_def)
  from fetch_caches_every_entry[OF pair_fst[OF fetch_patients] nc]
    fetch_patients fetch_patients_cache nc
  show ?thesis by (simp add: search_defs)
qed

subsection \<open>SearchSet: refinements leave the store as it was\<close>

lemma new_list_frame:
  "new_list xs st = (a, st') \<Longrightarrow>
   a = next_list st \<and> next_list st' = Suc (next_list st) \<and> lists st' = (lists st)(a := xs)
   \<and> dicts st' = dicts st \<and> next_dict st' = next_dict st
   \<and> resources_cache st' = resources_cache st \<and> sent st' = sent st"
  by (auto simp: new_list_def)

lemma deepcopy_items_frame:
  "deepcopy_items ps memo st = (ps', st') \<Longrightarrow>
   n \<le> next_list st \<Longrightarrow>
   \<forall>p \<in> set memo. n \<le> snd p \<Longrightarrow>
   next_list st \<le> next_list st'
   \<and> (\<forall>a < next_list st. lists st' a = lists st a)
   \<and> dicts st' = dicts st \<and> next_dict st' = next_dict st
   \<and> resources_cache st' = resources_cache st \<and> sent st' = sent st
   \<and> (\<forall>k b. (k, SRef b) \<in> set ps' \<longrightarrow> n \<le> b)"
proof (induction ps memo st arbitrary: ps' st' rule: deepcopy_items.induct)
  case (1 memo st)
  then show ?case by simp
next
  case (2 k v rest memo st)
  from "2.prems"(1) obtain rest' where
    r: "deepcopy_items rest memo st = (rest', st')" and ps': "ps' = (k, SVal v) # rest'"
    by (auto split: prod.splits)
  from "2.IH"[OF r "2.prems"(2,3)] ps' show ?case by auto
next
  case (3 k a rest memo st)
  show ?case
  proof (cases "map_of memo a")
    case (Some a')
    with "3.prems"(1) obtain rest' where
      r: "deepcopy_items rest memo st = (rest', st')" and ps': "ps' = (k, SRef a') # rest'"
      by (auto split: prod.splits)
    from Some have "(a, a') \<in> set memo" by (rule map_of_SomeD)
    with "3.prems"(3) have "n \<le> a'" by force
    with "3.IH"(2)[OF Some r "3.prems"(2,3)] ps' show ?thesis by auto
  next
    case None
    obtain a' st1 where nl: "new_list (lists st a) st = (a', st1)" by force
    with None "3.prems"(1) obtain rest' where
      r: "deepcopy_items rest ((a, a') # memo) st1 = (rest', st')" and
      ps': "ps' = (k, SRef a') # rest'"
      by (auto split: prod.splits)
    from new_list_frame[OF nl] have
      f: "a' = next_list st" "next_list st1 = Suc (next_list st)"
         "lists st1 = (lists st)(a' := lists st a)"
         "dicts st1 = dicts st" "next_dict st1 = next_dict st"
         "resources_cache st1 = resources_cache st" "sent st1 = sent st"
      by simp_all
    from f "3.prems"(2) have n1: "n \<le> next_list st1" by simp
    from f "3.prems"(2,3) have memo1: "\<forall>p \<in> set ((a, a') # memo). n \<le> snd p" by simp
    from "3.IH"(1)[OF None nl[symmetric] r n1 memo1] f ps' "3.prems"(2)
    show ?thesis by auto
  qed
qed

lemma coerce_frame:
  "coerce v st = (a, st') \<Longrightarrow>
   next_list st \<le> next_list st'
   \<and> (\<forall>b < next_list st. lists st' b = lists st b)
   \<and> dicts st' = dicts st \<and> next_dict st' = next_dict st
   \<and> resources_cache st' = resources_cache st \<and> sent st' = sent st"
  by (auto simp: coerce_def new_list_def split: slot.splits)

lemma set_update_subset:
  "p \<in> set (AList.update k v xs) \<Longrightarrow> p \<in> set xs \<or> p = (k, v)"
  by (induction xs) (auto split: if_splits)

lemma clone_loop_frame:
  "clone_loop override kwargs np st = (out, st') \<Longrightarrow>
   n \<le> next_list st \<Longrightarrow>
   \<not> override \<longrightarrow> (\<forall>k b. (k, SRef b) \<in> set np \<longrightarrow> n \<le> b) \<Longrightarrow>
   next_list st \<le> next_list st'
   \<and> (\<forall>a < n. lists st' a = lists st a)
   \<and> dicts st' = dicts st \<and> next_dict st' = next_dict st
   \<and> resources_cache st' = resources_cache st \<and> sent st' = sent st"
proof (induction kwargs arbitrary: np st)
  case Nil
  then show ?case by simp
next
  case (Cons kv kwargs)
  obtain key v where kv: "kv = (key, v)" by (cases kv)
  obtain val st1 where co: "coerce v st = (val, st1)" by force
  note f1 = coerce_frame[OF co]
  from f1 Cons.prems(2) have n1: "n \<le> next_list st1" by simp
  show ?case
  proof (cases override)
    case True
    with Cons.prems(1) kv co have
      r: "clone_loop override kwargs (AList.update key (SRef val) np) st1 = (out, st')"
      by simp
    from Cons.IH[OF r n1] True f1 Cons.prems(2) show ?thesis by auto
  next
    case False
    with Cons.prems(3) have fresh: "\<forall>k b. (k, SRef b) \<in> set np \<longrightarrow> n \<le> b" by simp
    show ?thesis
    proof (cases "map_of np key")
      case None
      obtain b st2 where nl: "new_list [] st1 = (b, st2)" by force
      note f2 = new_list_frame[OF nl]
      let ?st3 = "st2\<lparr>lists := (lists st2)(b := lists st2 b @ lists st2 val)\<rparr>"
      from Cons.prems(1) kv co False None nl have
        r: "clone_loop override kwargs (AList.update key (SRef b) np) ?st3 = (out, st')"
        by simp
      from f2 n1 have n3: "n \<le> next_list ?st3" by simp
      from f2 n1 have nb: "n \<le> b" by simp
      have fresh3: "\<not> override \<longrightarrow>
          (\<forall>k b'. (k, SRef b') \<in> set (AList.update key (SRef b) np) \<longrightarrow> n \<le> b')"
        using fresh nb by (auto dest: set_update_subset)
      from Cons.IH[OF r n3 fresh3] f1 f2 Cons.prems(2) nb show ?thesis by auto
    next
      case (Some sl)
      show ?thesis
      proof (cases sl)
        case (SRef b)
        let ?st2 = "st1\<lparr>lists := (lists st1)(b := lists st1 b @ lists st1 val)\<rparr>"
        from Cons.prems(1) kv co False Some SRef have
          r: "clone_loop override kwargs np ?st2 = (out, st')"
          by simp
        from Some SRef have "(key, SRef b) \<in> set np" by (auto dest: map_of_SomeD)
        with fresh have nb: "n \<le> b" by blast
        from n1 have n2: "n \<le> next_list ?st2" by simp
        from Cons.IH[OF r n2] Cons.prems(3) f1 Cons.prems(2) nb show ?thesis by auto
      next
        case (SVal x)
        with Cons.prems(1) kv co False Some have "st' = st1" by simp
        with f1 Cons.prems(2) show ?thesis by auto
      qed
    qed
  qed
qed

lemma SearchSet_clone_frame:
  assumes "SearchSet_clone s override kwargs st = (out, st')"
  shows "next_list st \<le> next_list st' \<and> next_dict st \<le> next_dict st'
       \<and> (\<forall>a < next_list st. lists st' a = lists st a)
       \<and> (\<forall>a < next_dict st. dicts st' a = dicts st a)
       \<and> resources_cache st' = resources_cache st \<and> sent st' = sent st
       \<and> (\<forall>s'. out = Inr s' \<longrightarrow>
             ss_params s' = next_dict st \<and> next_dict st' = Suc (next_dict st)
             \<and> ss_resource_type s' = ss_resource_type s)"
proof (cases "unpack [''self'', ''override''] kwargs")
  case (Inl err)
  with assms have "out = Inl err" "st' = st" by (simp_all add: SearchSet_clone_def)
  then show ?thesis by simp
next
  case (Inr kw)
  then have kw: "kw = kwargs" by (auto simp: unpack_def split: if_splits)
  obtain np st1 where dc: "deepcopy_items (dicts st (ss_params s)) [] st = (np, st1)"
    by force
  from deepcopy_items_frame[OF dc, of "next_list st"] have
    f1: "next_list st \<le> next_list st1" "\<forall>a < next_list st. lists st1 a = lists st a"
        "dicts st1 = dicts st" "next_dict st1 = next_dict st"
        "resources_cache st1 = resources_cache st" "sent st1 = sent st" and
    fresh: "\<forall>k b. (k, SRef b) \<in> set np \<longrightarrow> next_list st \<le> b"
    by simp_all
  obtain out2 st2 where cl: "clone_loop override kwargs np st1 = (out2, st2)" by force
  from clone_loop_frame[OF cl f1(1)] fresh have
    f2: "next_list st1 \<le> next_list st2" "\<forall>a < next_list st. lists st2 a = lists st1 a"
        "dicts st2 = dicts st1" "next_dict st2 = next_dict st1"
        "resources_cache st2 = resources_cache st1" "sent st2 = sent st1"
    by simp_all
  show ?thesis
  proof (cases out2)
    case (Inl err)
    with assms dc cl Inr kw have "out = Inl err" "st' = st2"
      by (simp_all add: SearchSet_clone_def)
    with f1 f2 show ?thesis by auto
  next
    case out2: (Inr np')
    with assms dc cl Inr kw have
      "out = Inr \<lparr>ss_resource_type = ss_resource_type s, ss_params = next_dict st2\<rparr>"
      "st' = st2\<lparr>dicts := (dicts st2)(next_dict st2 := np'), next_dict := Suc (next_dict st2)\<rparr>"
      by (simp_all add: SearchSet_clone_def SearchSet_init_def new_dict_def)
    with f1 f2 show ?thesis by auto
  qed
qed

lemma refine_is_clone:
  assumes h: "refine e s r st = (out, st')"
  shows "(\<exists>override kwargs. SearchSet_clone s override kwargs st = (out, st'))
   \<or> (st' = st \<and> (\<exists>err. out = Inl err))"
proof (cases r)
  case (Clone override kwargs)
  with h have "SearchSet_clone s override kwargs st = (out, st')" by simp
  then show ?thesis by blast
next
  case (Search kwargs)
  with h have "SearchSet_search s kwargs st = (out, st')" by simp
  then show ?thesis unfolding SearchSet_search_def
    by (cases "unpack [''self''] kwargs") auto
next
  case (Limit limit)
  with h have "SearchSet_limit s limit st = (out, st')" by simp
  then show ?thesis unfolding SearchSet_limit_def by blast
next
  case (Page page)
  with h have "SearchSet_page s page st = (out, st')" by simp
  then show ?thesis unfolding SearchSet_page_def by blast
next
  case (Sort keys)
  with h have "SearchSet_sort s keys st = (out, st')" by simp
  then show ?thesis unfolding SearchSet_sort_def by blast
next
  case (Elements attrs exclude)
  with h have "SearchSet_elements e s attrs exclude st = (out, st')" by simp
  then show ?thesis unfolding SearchSet_elements_def Let_def by blast
next
  case (Include rt attr target recursive)
  with h have "SearchSet_include s rt attr target recursive st = (out, st')" by simp
  then show ?thesis unfolding SearchSet_include_def Let_def by blast
next
  case (Has args kwargs)
  with h have has: "SearchSet_has s args kwargs st = (out, st')" by simp
  show ?thesis
  proof (cases "unpack [''self''] kwargs")
    case (Inl err)
    with has have "st' = st \<and> (\<exists>err. out = Inl err)"
      unfolding SearchSet_has_def by auto
    then show ?thesis by blast
  next
    case (Inr kw)
    show ?thesis
    proof (cases "length args mod 2 \<noteq> 0")
      case True
      with has Inr have "st' = st \<and> (\<exists>err. out = Inl err)"
        unfolding SearchSet_has_def by auto
      then show ?thesis by blast
    next
      case False
      with has Inr have "\<exists>kw. SearchSet_clone s False kw st = (out, st')"
        unfolding SearchSet_has_def Let_def by auto
      then show ?thesis by blast
    qed
  qed
qed

lemma refine_frame:
  assumes "refine e s r st = (out, st')"
  shows "next_list st \<le> next_list st' \<and> next_dict st \<le> next_dict st'
       \<and> (\<forall>a < next_list st. lists st' a = lists st a)
       \<and> (\<forall>a < next_dict st. dicts st' a = dicts st a)
       \<and> resources_cache st' = resources_cache st \<and> sent st' = sent st
       \<and> (\<forall>s'. out = Inr s' \<longrightarrow>
             ss_params s' = next_dict st \<and> next_dict st' = Suc (next_dict st)
             \<and> ss_resource_type s' = ss_resource_type s)"
proof -
  from refine_is_clone[OF assms] show ?thesis
  proof
    assume "\<exists>override kwargs. SearchSet_clone s override kwargs st = (out, st')"
    then obtain override kwargs where "SearchSet_clone s override kwargs st = (out, st')"
      by blast
    from SearchSet_clone_frame[OF this] show ?thesis .
  next
    assume "st' = st \<and> (\<exists>err. out = Inl err)"
    then show ?thesis by auto
  qed
qed

lemma frame_keeps_params:
  assumes wf0: "wf_SearchSet st s0"
      and nl: "next_list st \<le> next_list st'" and nd: "next_dict st \<le> next_dict st'"
      and ls: "\<forall>a < next_list st. lists st' a = lists st a"
      and ds: "\<forall>a < next_dict st. dicts st' a = dicts st a"
  shows "wf_SearchSet st' s0 \<and> SearchSet_params st' s0 = SearchSet_params st s0"
proof -
  from wf0 have a: "ss_params s0 < next_dict st" and
    l: "list_all (\<lambda>kv. case snd kv of SRef a \<Rightarrow> a < next_list st | SVal v \<Rightarrow> True)
          (dicts st (ss_params s0))"
    by (simp_all add: wf_SearchSet_def)
  from ds a have d: "dicts st' (ss_params s0) = dicts st (ss_params s0)" by simp
  have snap: "params_snapshot st' ps = params_snapshot st ps"
    if "list_all (\<lambda>kv. case snd kv of SRef a \<Rightarrow> a < next_list st | SVal v \<Rightarrow> True) ps" for ps
    using that ls by (induction ps) (auto simp: params_snapshot_def split: slot.splits)
  have mono: "list_all (\<lambda>kv. case snd kv of SRef a \<Rightarrow> a < next_list st' | SVal v \<Rightarrow> True) ps"
    if "list_all (\<lambda>kv. case snd kv of SRef a \<Rightarrow> a < next_list st | SVal v \<Rightarrow> True) ps" for ps
    using that nl by (induction ps) (auto split: slot.splits)
  from snap[OF l] mono[OF l] d a nd show ?thesis
    by (simp add: wf_SearchSet_def SearchSet_params_def)
qed

text \<open>
  C3.  Whatever refinement is called on a \<open>SearchSet\<close>, and whether it returns or raises,
  every list and every dict that was in the store before the call is as it was, and so
  are the cache and the requests sent; a refinement that returns gives a \<open>SearchSet\<close> of
  the same resource type whose parameter dict is a new object.  So every well-formed
  \<open>SearchSet\<close> has after the call the parameters it had before.
\<close>

theorem refinement_never_mutates:
  assumes "refine e s r st = (out, st')"
  shows "(\<forall>a < next_list st. lists st' a = lists st a)
       \<and> (\<forall>a < next_dict st. dicts st' a = dicts st a)
       \<and> resources_cache st' = resources_cache st \<and> sent st' = sent st
       \<and> (\<forall>s'. out = Inr s' \<longrightarrow>
             next_dict st \<le> ss_params s' \<and> ss_params s' < next_dict st'
             \<and> ss_resource_type s' = ss_resource_type s)
       \<and> (\<forall>s0. wf_SearchSet st s0 \<longrightarrow>
             wf_SearchSet st' s0 \<and> SearchSet_params st' s0 = SearchSet_params st s0)"
proof -
  from refine_frame[OF assms] have
    nl: "next_list st \<le> next_list st'" and nd: "next_dict st \<le> next_dict st'" and
    ls: "\<forall>a < next_list st. lists st' a = lists st a" and
    ds: "\<forall>a < next_dict st. dicts st' a = dicts st a" and
    cs: "resources_cache st' = resources_cache st" "sent st' = sent st" and
    fresh: "\<forall>s'. out = Inr s' \<longrightarrow>
             ss_params s' = next_dict st \<and> next_dict st' = Suc (next_dict st)
             \<and> ss_resource_type s' = ss_resource_type s"
    by blast+
  have new: "\<forall>s'. out = Inr s' \<longrightarrow>
             next_dict st \<le> ss_params s' \<and> ss_params s' < next_dict st'
             \<and> ss_resource_type s' = ss_resource_type s"
  proof (intro allI impI)
    fix s' assume "out = Inr s'"
    with fresh have "ss_params s' = next_dict st" "next_dict st' = Suc (next_dict st)"
      "ss_resource_type s' = ss_resource_type s"
      by blast+
    then show "next_dict st \<le> ss_params s' \<and> ss_params s' < next_dict st'
             \<and> ss_resource_type s' = ss_resource_type s"
      by arith
  qed
  have keep: "\<forall>s0. wf_SearchSet st s0 \<longrightarrow>
             wf_SearchSet st' s0 \<and> SearchSet_params st' s0 = SearchSet_params st s0"
  proof (intro allI impI)
    fix s0 assume "wf_SearchSet st s0"
    from frame_keeps_params[OF this nl nd ls ds]
    show "wf_SearchSet st' s0 \<and> SearchSet_params st' s0 = SearchSet_params st s0" .
  qed
  show ?thesis
  proof (intro conjI)
    show "\<forall>a < next_list st. lists st' a = lists st a" by (rule ls)
    show "\<forall>a < next_dict st. dicts st' a = dicts st a" by (rule ds)
    show "resources_cache st' = resources_cache st" by (rule cs)
    show "sent st' = sent st" by (rule cs)
    show "\<forall>s'. out = Inr s' \<longrightarrow>
             next_dict st \<le> ss_params s' \<and> ss_params s' < next_dict st'
             \<and> ss_resource_type s' = ss_resource_type s" by (rule new)
    show "\<forall>s0. wf_SearchSet st s0 \<longrightarrow>
             wf_SearchSet st' s0 \<and> SearchSet_params st' s0 = SearchSet_params st s0"
      by (rule keep)
  qed
qed
subsection \<open>SearchSet: the refinements on a concrete search\<close>

lemmas refine_defs =
  SearchSet_search_def SearchSet_limit_def SearchSet_clone_def SearchSet_init_def
  new_dict_def new_list_def coerce_def slot_truthy_def unpack_def
  SearchSet_params_def params_snapshot_def wf_SearchSet_def arg_values_def
  patients_def patients_state_def empty_state_def named_search_def named_state_def

lemma search_named:
  "fst (SearchSet_search patients [(''name'', SVal (PStr ''Ann''))] patients_state)
     = Inr named_search"
  by (simp add: refine_defs)

lemma named_search_wf: "wf_SearchSet named_state named_search"
  by (simp add: refine_defs)

lemma named_search_params:
  "SearchSet_params named_state named_search = [(''name'', PList [PStr ''Ann''])]"
  by (simp add: refine_defs)

lemma limit_named:
  "fst (refine test_env named_search (Limit (SVal (PInt 5))) named_state)
     = Inr \<lparr>ss_resource_type = ''Patient'', ss_params = 2\<rparr>"
  by (simp add: refine_defs)

lemma limit_named_params:
  "SearchSet_params (snd (refine test_env named_search (Limit (SVal (PInt 5))) named_state))
     \<lparr>ss_resource_type = ''Patient'', ss_params = 2\<rparr>
   = [(''name'', PList [PStr ''Ann'']), (''_count'', PList [PInt 5])]"
  by (simp add: refine_defs)

theorem refinement_never_mutates_witness:
  "fst (SearchSet_search patients [(''name'', SVal (PStr ''Ann''))] patients_state)
     = Inr named_search
   \<and> wf_SearchSet named_state named_search
   \<and> SearchSet_params named_state named_search = [(''name'', PList [PStr ''Ann''])]
   \<and> fst (refine test_env named_search (Limit (SVal (PInt 5))) named_state)
       = Inr \<lparr>ss_resource_type = ''Patient'', ss_params = 2\<rparr>
   \<and> SearchSet_params (snd (refine test_env named_search (Limit (SVal (PInt 5))) named_state))
        \<lparr>ss_resource_type = ''Patient'', ss_params = 2\<rparr>
       = [(''name'', PList [PStr ''Ann'']), (''_count'', PList [PInt 5])]
   \<and> SearchSet_params (snd (refine test_env named_search (Limit (SVal (PInt 5))) named_state))
        named_search
       = [(''name'', PList [PStr ''Ann''])]"
  using refinement_never_mutates[OF pair_fst[OF limit_named]]
    search_named named_search_wf named_search_params limit_named limit_named_params
  by simp

subsection \<open>SearchSet: what clone stores under each key\<close>























subsection \<open>SearchSet: fetch_all\<close>

lemma fetch_all_loop_step:
  "fetch_all_loop e c s skip_caching page resources st =
     (case page_fetch e c s skip_caching page st of
        (Inl err, st2) \<Rightarrow> Some (Inl err, st2)
      | (Inr new_resources, st2) \<Rightarrow>
          if new_resources = [] then Some (Inr resources, st2)
          else fetch_all_loop e c s skip_caching (page + 1) (resources @ new_resources) st2)"
  by (subst fetch_all_loop.simps)
     (auto simp: page_fetch_def split: prod.splits sum.splits)

lemma fetch_all_loop_pages:
  "fetch_pages e c s skip_caching page n st = Some (rss, st1) \<Longrightarrow>
   page_fetch e c s skip_caching (page + int n) st1 = (Inr [], st2) \<Longrightarrow>
   fetch_all_loop e c s skip_caching page resources st = Some (Inr (resources @ concat rss), st2)"
proof (induction n arbitrary: page resources st rss)
  case 0
  then show ?case by (subst fetch_all_loop_step) simp
next
  case (Suc n)
  from Suc.prems(1) obtain rs sta rss' where
    p: "page_fetch e c s skip_caching page st = (Inr rs, sta)" and ne: "rs \<noteq> []" and
    rest: "fetch_pages e c s skip_caching (page + 1) n sta = Some (rss', st1)" and
    rss: "rss = rs # rss'"
    by (auto split: prod.splits sum.splits if_splits option.splits)
  have "page + int (Suc n) = page + 1 + int n" by simp
  with Suc.prems(2)
  have "page_fetch e c s skip_caching (page + 1 + int n) st1 = (Inr [], st2)"
    by (simp only:)
  from Suc.IH[OF rest this, of "resources @ rs"]
  have "fetch_all_loop e c s skip_caching (page + 1) (resources @ rs) sta
          = Some (Inr ((resources @ rs) @ concat rss'), st2)" .
  with p ne rss show ?case by (subst fetch_all_loop_step) simp
qed

text \<open>
  C7.  When the fetches of pages 1 to \<open>n\<close>, one after the other, all return lists that
  are not empty and the fetch of page \<open>n + 1\<close> returns the empty list, \<open>fetch_all\<close>
  returns, in the state that fetch leaves, the lists of pages 1 to \<open>n\<close> one after the
  other.
\<close>

theorem fetch_all_stops_at_first_empty_page:
  assumes "fetch_pages e c s skip_caching 1 n st = Some (rss, st1)"
      and "page_fetch e c s skip_caching (1 + int n) st1 = (Inr [], st2)"
  shows "SearchSet_fetch_all e c s skip_caching st = Some (Inr (concat rss), st2)"
  using fetch_all_loop_pages[OF assms, of "[]"] by (simp add: SearchSet_fetch_all_def)
lemma option_pair_fst: "map_option fst x = Some a \<Longrightarrow> x = Some (a, snd (the x))"
  by (cases x) auto

lemma fetch_pages_patients:
  "map_option fst (fetch_pages test_env test_client patients False 1 (Suc 0) patients_state)
     = Some [[fetched_patient]]"
  by (simp add: page_fetch_def model_defs input_defs search_defs refine_defs)

lemma page_fetch_patients_2:
  "fst (page_fetch test_env test_client patients False (1 + int (Suc 0))
          (snd (the (fetch_pages test_env test_client patients False 1 (Suc 0) patients_state))))
     = Inr []"
  by (simp add: page_fetch_def model_defs input_defs search_defs refine_defs)

theorem fetch_all_stops_at_first_empty_page_witness:
  "map_option fst (fetch_pages test_env test_client patients False 1 (Suc 0) patients_state)
     = Some [[fetched_patient]]
   \<and> fst (page_fetch test_env test_client patients False (1 + int (Suc 0))
            (snd (the (fetch_pages test_env test_client patients False 1 (Suc 0)
                         patients_state))))
       = Inr []
   \<and> map_option fst (SearchSet_fetch_all test_env test_client patients False patients_state)
       = Some (Inr [fetched_patient])"
  using fetch_all_stops_at_first_empty_page
          [OF option_pair_fst[OF fetch_pages_patients] pair_fst[OF page_fetch_patients_2]]
    fetch_pages_patients page_fetch_patients_2
  by simp

end
